theory Spec2Isabelle
  imports Complex_Main "HOL-Library.AList"
begin

section \<open>JavaScript values, objects and strings\<close>

text \<open>
  The client (\<^verbatim>\<open>src/namecheap-client.ts\<close>) passes flat parameter objects to the HTTP
  library. A parameter value is a string, a number or \<^verbatim>\<open>undefined\<close>. A number of the
  language is a double; the model takes the real numbers, of which every finite double
  is one (the client only passes numbers on: page numbers and years). An object is an
  association list in insertion order; assigning to a key that is already present
  replaces the value in place, as a JavaScript property assignment does.
\<close>

datatype jsval = JUndefined | JString string | JNumber real

type_synonym obj = "(string \<times> jsval) list"

definition obj_get :: "obj \<Rightarrow> string \<Rightarrow> jsval" where
  "obj_get ob k = (case map_of ob k of None \<Rightarrow> JUndefined | Some v \<Rightarrow> v)"

definition obj_set :: "obj \<Rightarrow> string \<Rightarrow> jsval \<Rightarrow> obj" where
  "obj_set ob k v = AList.update k v ob"

text \<open>Object spread \<^verbatim>\<open>{...base, ...extra}\<close>: the properties of \<open>extra\<close> are assigned in order.\<close>

definition spread :: "obj \<Rightarrow> obj \<Rightarrow> obj" where
  "spread base extra = foldl (\<lambda>ob (k, v). obj_set ob k v) base extra"

text \<open>A string-or-undefined value, as read from an XML attribute, seen as a parameter value.\<close>

definition js_of :: "string option \<Rightarrow> jsval" where
  "js_of v = (case v of None \<Rightarrow> JUndefined | Some s \<Rightarrow> JString s)"

text \<open>Truthiness of a string-or-undefined value: \<^verbatim>\<open>undefined\<close> and \<^verbatim>\<open>''\<close> are falsy.\<close>

definition truthy :: "string option \<Rightarrow> bool" where
  "truthy v = (case v of None \<Rightarrow> False | Some s \<Rightarrow> s \<noteq> [])"

text \<open>
  Decimal rendering of an array index inside a template string: an index is a whole
  number below \<open>2^32\<close>, which JavaScript prints as its decimal digits.
\<close>

definition digit_char :: "nat \<Rightarrow> char" where
  "digit_char d = ''0123456789'' ! d"

fun digits_of :: "nat \<Rightarrow> string" where
  "digits_of n = (if n < 10 then [digit_char n] else digits_of (n div 10) @ [digit_char (n mod 10)])"

declare digits_of.simps [simp del]

text \<open>\<^verbatim>\<open>s.split(c)\<close> for a one-character separator, and \<^verbatim>\<open>parts.join(sep)\<close>.\<close>

fun split_on :: "char \<Rightarrow> string \<Rightarrow> string list" where
  "split_on c [] = [[]]"
| "split_on c (x # xs) =
     (if x = c then [] # split_on c xs
      else (case split_on c xs of [] \<Rightarrow> [[x]] | p # ps \<Rightarrow> (x # p) # ps))"

fun join_with :: "string \<Rightarrow> string list \<Rightarrow> string" where
  "join_with sep [] = []"
| "join_with sep [p] = p"
| "join_with sep (p # q # ps) = p @ sep @ join_with sep (q # ps)"

text \<open>The number that a string of decimal digits denotes (used to tell the keys apart).\<close>

definition digit_value :: "char \<Rightarrow> nat" where
  "digit_value c = (of_char c - 48)"

definition digits_value :: "string \<Rightarrow> nat" where
  "digits_value ds = foldl (\<lambda>acc c. 10 * acc + digit_value c) 0 ds"

section \<open>Parsed responses and thrown values\<close>

text \<open>
  The tree that the XML parser hands to the client: an element without attributes and
  children is its text; any other element is an object with the attributes under
  \<^verbatim>\<open>$\<close> (absent when there are none), the text under \<^verbatim>\<open>_\<close> (absent when there is none)
  and each child element name bound to the array of the children of that name.
\<close>

datatype xml =
    XText string
  | XElem "(string \<times> string) list option" "string option" "(string \<times> xml list) list"

text \<open>
  What can be thrown: an instance of \<^verbatim>\<open>Error\<close> with its message (from the HTTP library,
  the parser, or a \<^verbatim>\<open>TypeError\<close> of a property access on \<^verbatim>\<open>undefined\<close>), or some
  other value. \<^verbatim>\<open>NamecheapError\<close> carries message, code and details.
\<close>

datatype cause = Error_instance string | Thrown_value

datatype exn =
    NamecheapError string "string option" "cause option"
  | Uncaught cause

definition type_error :: "string \<Rightarrow> string \<Rightarrow> cause" where
  "type_error base prop =
     Error_instance (''Cannot read properties of '' @ base @ '' (reading '' @ [CHR 0x27] @ prop @ [CHR 0x27] @ '')'')"

text \<open>\<^verbatim>\<open>error instanceof Error ? error.message : 'Unknown error'\<close>\<close>

definition cause_message :: "cause \<Rightarrow> string" where
  "cause_message c = (case c of Error_instance m \<Rightarrow> m | Thrown_value \<Rightarrow> ''Unknown error'')"

definition exn_message :: "exn \<Rightarrow> string" where
  "exn_message e = (case e of NamecheapError m _ _ \<Rightarrow> m | Uncaught c \<Rightarrow> cause_message c)"

definition and_then :: "'e + 'a \<Rightarrow> ('a \<Rightarrow> 'e + 'b) \<Rightarrow> 'e + 'b" where
  "and_then r f = (case r of Inl e \<Rightarrow> Inl e | Inr a \<Rightarrow> f a)"

text \<open>Property accesses on the parsed tree; \<open>None\<close> is \<^verbatim>\<open>undefined\<close>.\<close>

definition get_child :: "xml option \<Rightarrow> string \<Rightarrow> exn + xml list option" where
  "get_child x name =
     (case x of
        None \<Rightarrow> Inl (Uncaught (type_error ''undefined'' name))
      | Some (XText _) \<Rightarrow> Inr None
      | Some (XElem _ _ kids) \<Rightarrow> Inr (map_of kids name))"

definition at0 :: "xml list option \<Rightarrow> exn + xml option" where
  "at0 arr =
     (case arr of
        None \<Rightarrow> Inl (Uncaught (type_error ''undefined'' ''0''))
      | Some [] \<Rightarrow> Inr None
      | Some (e # _) \<Rightarrow> Inr (Some e))"

definition item :: "xml option \<Rightarrow> string \<Rightarrow> exn + xml option" where
  "item x name = and_then (get_child x name) at0"

definition get_attrs :: "xml option \<Rightarrow> exn + (string \<times> string) list option" where
  "get_attrs x =
     (case x of
        None \<Rightarrow> Inl (Uncaught (type_error ''undefined'' ''$''))
      | Some (XText _) \<Rightarrow> Inr None
      | Some (XElem a _ _) \<Rightarrow> Inr a)"

definition get_attr :: "(string \<times> string) list option \<Rightarrow> string \<Rightarrow> exn + string option" where
  "get_attr a name =
     (case a of
        None \<Rightarrow> Inl (Uncaught (type_error ''undefined'' name))
      | Some kvs \<Rightarrow> Inr (map_of kvs name))"

definition get_text :: "xml option \<Rightarrow> exn + string option" where
  "get_text x =
     (case x of
        None \<Rightarrow> Inl (Uncaught (type_error ''undefined'' ''_''))
      | Some (XText _) \<Rightarrow> Inr None
      | Some (XElem _ t _) \<Rightarrow> Inr t)"

section \<open>The gateway: \<^verbatim>\<open>makeRequest\<close>\<close>

record NamecheapConfig =
  apiUser :: string
  apiKey :: string
  clientIp :: string
  sandbox :: "bool option"

definition apiUrl :: "NamecheapConfig \<Rightarrow> string" where
  "apiUrl cfg =
     (if sandbox cfg = Some True then ''https://api.sandbox.namecheap.com/xml.response''
      else ''https://api.namecheap.com/xml.response'')"

text \<open>
  The HTTP post followed by the XML parse is the environment of the client: given the
  URL and the query parameters it throws, or yields the parsed document (the root
  element's name and tree; \<open>None\<close> when the parser yields \<^verbatim>\<open>null\<close>). The environment has
  a state of its own, threaded through every call.
\<close>

record request =
  req_url :: string
  req_params :: obj

datatype outcome = Thrown cause | Parsed "(string \<times> xml) option"

type_synonym 's transport = "'s \<Rightarrow> request \<Rightarrow> outcome \<times> 's"

definition identity_params :: "NamecheapConfig \<Rightarrow> string \<Rightarrow> obj" where
  "identity_params cfg command =
     [(''ApiUser'', JString (apiUser cfg)),
      (''ApiKey'', JString (apiKey cfg)),
      (''UserName'', JString (apiUser cfg)),
      (''ClientIp'', JString (clientIp cfg)),
      (''Command'', JString command)]"

definition requestParams :: "NamecheapConfig \<Rightarrow> string \<Rightarrow> obj \<Rightarrow> obj" where
  "requestParams cfg command ps = spread (identity_params cfg command) ps"

text \<open>The body of the \<^verbatim>\<open>try\<close> block after the parse.\<close>

definition check_response :: "(string \<times> xml) option \<Rightarrow> exn + xml option" where
  "check_response result =
     and_then
       (case result of
          None \<Rightarrow> Inl (Uncaught (type_error ''null'' ''ApiResponse''))
        | Some (rootName, e) \<Rightarrow> Inr (if rootName = ''ApiResponse'' then Some e else None))
       (\<lambda>apiResponse.
     and_then (get_attrs apiResponse) (\<lambda>a.
     and_then (get_attr a ''Status'') (\<lambda>status.
       if status = Some ''ERROR'' then
         and_then (item apiResponse ''Errors'') (\<lambda>errors0.
         and_then (item errors0 ''Error'') (\<lambda>error.
         and_then (get_text error) (\<lambda>txt.
         and_then (get_attrs error) (\<lambda>ea.
         and_then (get_attr ea ''Number'') (\<lambda>num.
           Inl (NamecheapError (case txt of None \<Rightarrow> [] | Some t \<Rightarrow> t) num None))))))
       else Inr apiResponse)))"

text \<open>The \<^verbatim>\<open>catch\<close> block.\<close>

definition catch_handler :: "exn \<Rightarrow> exn" where
  "catch_handler e =
     (case e of
        NamecheapError m c d \<Rightarrow> NamecheapError m c d
      | Uncaught c \<Rightarrow>
          NamecheapError (''API request failed: '' @ cause_message c) (Some ''REQUEST_FAILED'') (Some c))"

text \<open>The \<^verbatim>\<open>try\<close> block as a whole: the post and the parse throw, or the body runs.\<close>

definition try_block :: "outcome \<Rightarrow> exn + xml option" where
  "try_block out = (case out of Thrown c \<Rightarrow> Inl (Uncaught c) | Parsed result \<Rightarrow> check_response result)"

definition makeRequest ::
  "NamecheapConfig \<Rightarrow> 's transport \<Rightarrow> 's \<Rightarrow> string \<Rightarrow> obj \<Rightarrow> (exn + xml option) \<times> 's" where
  "makeRequest cfg tr s command ps =
     (case tr s \<lparr>req_url = apiUrl cfg, req_params = requestParams cfg command ps\<rparr> of
        (out, s') \<Rightarrow>
          (case try_block out of
             Inl e \<Rightarrow> (Inl (catch_handler e), s')
           | Inr apiResponse \<Rightarrow> (Inr apiResponse, s')))"

section \<open>The facade: domain operations\<close>

text \<open>Continue after a gateway call with a computation that may throw outside the gateway.\<close>

definition after :: "(exn + 'a) \<times> 's \<Rightarrow> ('a \<Rightarrow> exn + 'b) \<Rightarrow> (exn + 'b) \<times> 's" where
  "after r f = (case r of (x, s') \<Rightarrow> (and_then x f, s'))"

text \<open>\<^verbatim>\<open>xs.map(f)\<close> where \<open>f\<close> may throw: the first exception ends the loop.\<close>

fun map_all :: "('a \<Rightarrow> exn + 'b) \<Rightarrow> 'a list \<Rightarrow> exn + 'b list" where
  "map_all f [] = Inr []"
| "map_all f (x # xs) = and_then (f x) (\<lambda>y. and_then (map_all f xs) (\<lambda>ys. Inr (y # ys)))"

text \<open>
  \<open>premiumPrice\<close> holds the attribute text that the source hands to \<^verbatim>\<open>parseFloat\<close>
  (\<open>None\<close> when the attribute is absent or empty); the floating-point value itself is
  outside this model.
\<close>

record DomainCheckResult =
  domain :: "string option"
  available :: bool
  isPremium :: bool
  premiumPrice :: "string option"

text \<open>
  \<open>created\<close> and \<open>expires\<close> hold the value found in the parsed tree: the attribute
  text for \<^verbatim>\<open>listDomains\<close>, the first child element (its text, normally) for
  \<^verbatim>\<open>getDomainInfo\<close>.
\<close>

record DomainInfo =
  domainName :: "string option"
  created :: "xml option"
  expires :: "xml option"
  isLocked :: bool
  isAutoRenew :: bool
  whoisGuard :: bool

definition check_result_of :: "xml option \<Rightarrow> exn + DomainCheckResult" where
  "check_result_of result =
     and_then (get_attrs result) (\<lambda>a.
     and_then (get_attr a ''Domain'') (\<lambda>dom.
     and_then (get_attr a ''Available'') (\<lambda>av.
     and_then (get_attr a ''IsPremiumName'') (\<lambda>prem.
     and_then (get_attr a ''PremiumRegistrationPrice'') (\<lambda>price.
       Inr \<lparr>domain = dom, available = (av = Some ''true''), isPremium = (prem = Some ''true''),
            premiumPrice = (if truthy price then price else None)\<rparr>)))))"

definition checkDomain ::
  "NamecheapConfig \<Rightarrow> 's transport \<Rightarrow> 's \<Rightarrow> string \<Rightarrow> (exn + DomainCheckResult) \<times> 's" where
  "checkDomain cfg tr s d =
     after (makeRequest cfg tr s ''namecheap.domains.check'' [(''DomainList'', JString d)])
       (\<lambda>response.
          and_then (item response ''CommandResponse'') (\<lambda>c.
          and_then (item c ''DomainCheckResult'') check_result_of))"

definition checkDomains ::
  "NamecheapConfig \<Rightarrow> 's transport \<Rightarrow> 's \<Rightarrow> string list \<Rightarrow> (exn + DomainCheckResult list) \<times> 's" where
  "checkDomains cfg tr s ds =
     after (makeRequest cfg tr s ''namecheap.domains.check''
              [(''DomainList'', JString (join_with '','' ds))])
       (\<lambda>response.
          and_then (item response ''CommandResponse'') (\<lambda>c.
          and_then (get_child c ''DomainCheckResult'') (\<lambda>arr.
            case arr of
              None \<Rightarrow> Inl (Uncaught (type_error ''undefined'' ''map''))
            | Some results \<Rightarrow> map_all (\<lambda>r. check_result_of (Some r)) results)))"

definition domain_info_of :: "xml \<Rightarrow> exn + DomainInfo" where
  "domain_info_of e =
     and_then (get_attrs (Some e)) (\<lambda>a.
     and_then (get_attr a ''Name'') (\<lambda>nm.
     and_then (get_attr a ''Created'') (\<lambda>cr.
     and_then (get_attr a ''Expires'') (\<lambda>ex.
     and_then (get_attr a ''IsLocked'') (\<lambda>lk.
     and_then (get_attr a ''AutoRenew'') (\<lambda>ar.
     and_then (get_attr a ''WhoisGuard'') (\<lambda>wg.
       Inr \<lparr>domainName = nm, created = map_option XText cr, expires = map_option XText ex,
            isLocked = (lk = Some ''true''), isAutoRenew = (ar = Some ''true''),
            whoisGuard = (wg = Some ''ENABLED'')\<rparr>)))))))"

text \<open>\<^verbatim>\<open>arr || []\<close> on an array-or-undefined value (an array is truthy).\<close>

definition or_empty :: "'a list option \<Rightarrow> 'a list" where
  "or_empty arr = (case arr of None \<Rightarrow> [] | Some xs \<Rightarrow> xs)"

text \<open>
  \<^verbatim>\<open>parseInt(v, 10)\<close> is a built-in of the language, not code of the client: it is the
  parameter \<open>parseInt\<close>, from the string-or-undefined value it is given to a result
  of any type \<open>'n\<close>.
\<close>

definition listDomains ::
  "(string option \<Rightarrow> 'n) \<Rightarrow> NamecheapConfig \<Rightarrow> 's transport \<Rightarrow> 's \<Rightarrow> real \<Rightarrow> real \<Rightarrow>
     (exn + DomainInfo list \<times> 'n) \<times> 's" where
  "listDomains parseInt cfg tr s page pageSize =
     after (makeRequest cfg tr s ''namecheap.domains.getList''
              [(''Page'', JNumber page), (''PageSize'', JNumber pageSize)])
       (\<lambda>response.
          and_then (item response ''Paging'') (\<lambda>p0.
          and_then (get_attrs p0) (\<lambda>paging.
          and_then (item response ''CommandResponse'') (\<lambda>c.
          and_then (item c ''DomainGetListResult'') (\<lambda>r.
          and_then (get_child r ''Domain'') (\<lambda>arr.
          and_then (map_all domain_info_of (or_empty arr)) (\<lambda>domains.
          and_then (get_attr paging ''TotalItems'') (\<lambda>total.
            Inr (domains, parseInt total)))))))))"

definition getDomainInfo ::
  "NamecheapConfig \<Rightarrow> 's transport \<Rightarrow> 's \<Rightarrow> string \<Rightarrow> (exn + DomainInfo) \<times> 's" where
  "getDomainInfo cfg tr s d =
     after (makeRequest cfg tr s ''namecheap.domains.getInfo'' [(''DomainName'', JString d)])
       (\<lambda>response.
          and_then (item response ''CommandResponse'') (\<lambda>c.
          and_then (item c ''DomainGetInfoResult'') (\<lambda>r.
          and_then (item r ''DomainDetails'') (\<lambda>domainDetail.
          and_then (item domainDetail ''CreatedDate'') (\<lambda>cr.
          and_then (item domainDetail ''ExpiredDate'') (\<lambda>ex.
          and_then (item domainDetail ''IsLocked'') (\<lambda>lk.
          and_then (item domainDetail ''AutoRenew'') (\<lambda>ar.
          and_then (item domainDetail ''WhoisGuard'') (\<lambda>wg.
          and_then (get_attrs wg) (\<lambda>wa.
          and_then (get_attr wa ''Enabled'') (\<lambda>en.
            Inr \<lparr>domainName = Some d, created = cr, expires = ex,
                 isLocked = (lk = Some (XText ''true'')),
                 isAutoRenew = (ar = Some (XText ''true'')),
                 whoisGuard = (en = Some ''true'')\<rparr>)))))))))))"

section \<open>The facade: DNS operations\<close>

text \<open>
  A \<^verbatim>\<open>DNSRecord\<close> at run time: every field is a string or \<^verbatim>\<open>undefined\<close> (\<open>None\<close>);
  \<^verbatim>\<open>getDNSRecords\<close> copies whatever attributes the host element has.
\<close>

record DNSRecord =
  hostId :: "string option"
  name :: "string option"
  type :: "string option"
  address :: "string option"
  mxPref :: "string option"
  ttl :: "string option"

text \<open>
  A \<^verbatim>\<open>Partial<DNSRecord>\<close> is an object with some of the six keys: \<open>None\<close> for an
  absent key, \<open>Some None\<close> for a key that is present with the value \<^verbatim>\<open>undefined\<close>.
  The keys of an object are distinct, and neither \<^verbatim>\<open>every\<close> over a pure test nor a
  spread depends on their order, so the entries are listed in the order of the fields.
\<close>

datatype field = F_hostId | F_name | F_type | F_address | F_mxPref | F_ttl

type_synonym partial_record = "field \<Rightarrow> string option option"

definition all_fields :: "field list" where
  "all_fields = [F_hostId, F_name, F_type, F_address, F_mxPref, F_ttl]"

fun get_field :: "DNSRecord \<Rightarrow> field \<Rightarrow> string option" where
  "get_field r F_hostId = hostId r"
| "get_field r F_name = name r"
| "get_field r F_type = type r"
| "get_field r F_address = address r"
| "get_field r F_mxPref = mxPref r"
| "get_field r F_ttl = ttl r"

fun set_field :: "DNSRecord \<Rightarrow> field \<Rightarrow> string option \<Rightarrow> DNSRecord" where
  "set_field r F_hostId v = r\<lparr>hostId := v\<rparr>"
| "set_field r F_name v = r\<lparr>name := v\<rparr>"
| "set_field r F_type v = r\<lparr>type := v\<rparr>"
| "set_field r F_address v = r\<lparr>address := v\<rparr>"
| "set_field r F_mxPref v = r\<lparr>mxPref := v\<rparr>"
| "set_field r F_ttl v = r\<lparr>ttl := v\<rparr>"

text \<open>\<^verbatim>\<open>Object.entries(p)\<close>\<close>

definition entries :: "partial_record \<Rightarrow> (field \<times> string option) list" where
  "entries p = List.map_filter (\<lambda>f. map_option (Pair f) (p f)) all_fields"

text \<open>\<^verbatim>\<open>Object.entries(criteria).every(([key, value]) => record[key] === value)\<close>\<close>

definition matches :: "partial_record \<Rightarrow> DNSRecord \<Rightarrow> bool" where
  "matches criteria r = list_all (\<lambda>(key, v). get_field r key = v) (entries criteria)"

text \<open>\<^verbatim>\<open>{ ...record, ...updates }\<close>\<close>

definition merge_updates :: "DNSRecord \<Rightarrow> partial_record \<Rightarrow> DNSRecord" where
  "merge_updates r updates = foldl (\<lambda>acc (key, v). set_field acc key v) r (entries updates)"

definition sld_of :: "string \<Rightarrow> jsval" where
  "sld_of d = (case split_on CHR ''.'' d of [] \<Rightarrow> JUndefined | p # _ \<Rightarrow> JString p)"

definition tld_of :: "string \<Rightarrow> jsval" where
  "tld_of d = JString (join_with ''.'' (drop 1 (split_on CHR ''.'' d)))"

definition record_of_host :: "xml \<Rightarrow> exn + DNSRecord" where
  "record_of_host host =
     and_then (get_attrs (Some host)) (\<lambda>a.
     and_then (get_attr a ''HostId'') (\<lambda>hid.
     and_then (get_attr a ''Name'') (\<lambda>nm.
     and_then (get_attr a ''Type'') (\<lambda>ty.
     and_then (get_attr a ''Address'') (\<lambda>ad.
     and_then (get_attr a ''MXPref'') (\<lambda>mx.
     and_then (get_attr a ''TTL'') (\<lambda>tl.
       Inr \<lparr>hostId = hid, name = nm, type = ty, address = ad, mxPref = mx, ttl = tl\<rparr>)))))))"

definition getDNSRecords ::
  "NamecheapConfig \<Rightarrow> 's transport \<Rightarrow> 's \<Rightarrow> string \<Rightarrow> (exn + DNSRecord list) \<times> 's" where
  "getDNSRecords cfg tr s d =
     after (makeRequest cfg tr s ''namecheap.domains.dns.getHosts''
              [(''SLD'', sld_of d), (''TLD'', tld_of d)])
       (\<lambda>response.
          and_then (item response ''CommandResponse'') (\<lambda>c.
          and_then (item c ''DomainDNSGetHostsResult'') (\<lambda>r.
          and_then (get_child r ''host'') (\<lambda>arr.
            map_all record_of_host (or_empty arr)))))"

text \<open>The template string \<^verbatim>\<open>`HostName${num}`\<close> and its siblings.\<close>

definition indexed :: "string \<Rightarrow> nat \<Rightarrow> string" where
  "indexed k num = k @ digits_of num"

text \<open>One round of the \<^verbatim>\<open>forEach\<close> in \<^verbatim>\<open>setDNSRecords\<close>, at zero-based \<open>index\<close>.\<close>

definition set_host :: "obj \<Rightarrow> nat \<times> DNSRecord \<Rightarrow> obj" where
  "set_host ps ir =
     (case ir of (index, r) \<Rightarrow>
        (let num = index + 1;
             p1 = obj_set ps (indexed ''HostName'' num) (js_of (name r));
             p2 = obj_set p1 (indexed ''RecordType'' num) (js_of (type r));
             p3 = obj_set p2 (indexed ''Address'' num) (js_of (address r));
             p4 = (if truthy (mxPref r) then obj_set p3 (indexed ''MXPref'' num) (js_of (mxPref r)) else p3)
         in if truthy (ttl r) then obj_set p4 (indexed ''TTL'' num) (js_of (ttl r)) else p4))"

definition host_params :: "string \<Rightarrow> DNSRecord list \<Rightarrow> obj" where
  "host_params d records =
     foldl set_host [(''SLD'', sld_of d), (''TLD'', tld_of d)] (enumerate 0 records)"

definition setDNSRecords ::
  "NamecheapConfig \<Rightarrow> 's transport \<Rightarrow> 's \<Rightarrow> string \<Rightarrow> DNSRecord list \<Rightarrow> (exn + unit) \<times> 's" where
  "setDNSRecords cfg tr s d records =
     after (makeRequest cfg tr s ''namecheap.domains.dns.setHosts'' (host_params d records))
       (\<lambda>_. Inr ())"

definition addDNSRecord ::
  "NamecheapConfig \<Rightarrow> 's transport \<Rightarrow> 's \<Rightarrow> string \<Rightarrow> DNSRecord \<Rightarrow> (exn + unit) \<times> 's" where
  "addDNSRecord cfg tr s d r =
     (case getDNSRecords cfg tr s d of
        (Inl e, s1) \<Rightarrow> (Inl e, s1)
      | (Inr existingRecords, s1) \<Rightarrow> setDNSRecords cfg tr s1 d (existingRecords @ [r]))"

definition updateDNSRecord ::
  "NamecheapConfig \<Rightarrow> 's transport \<Rightarrow> 's \<Rightarrow> string \<Rightarrow> partial_record \<Rightarrow> partial_record \<Rightarrow>
     (exn + unit) \<times> 's" where
  "updateDNSRecord cfg tr s d criteria updates =
     (case getDNSRecords cfg tr s d of
        (Inl e, s1) \<Rightarrow> (Inl e, s1)
      | (Inr records, s1) \<Rightarrow>
          setDNSRecords cfg tr s1 d
            (map (\<lambda>r. if matches criteria r then merge_updates r updates else r) records))"

definition deleteDNSRecord ::
  "NamecheapConfig \<Rightarrow> 's transport \<Rightarrow> 's \<Rightarrow> string \<Rightarrow> partial_record \<Rightarrow> (exn + unit) \<times> 's" where
  "deleteDNSRecord cfg tr s d criteria =
     (case getDNSRecords cfg tr s d of
        (Inl e, s1) \<Rightarrow> (Inl e, s1)
      | (Inr records, s1) \<Rightarrow>
          setDNSRecords cfg tr s1 d (filter (\<lambda>r. \<not> matches criteria r) records))"

section \<open>Registration\<close>

record contactInfo =
  firstName :: string
  lastName :: string
  address1 :: string
  city :: string
  stateProvince :: string
  postalCode :: string
  country :: string
  phone :: string
  emailAddress :: string

text \<open>
  The nine contact parameters of one role; the \<^verbatim>\<open>params\<close> literal of \<^verbatim>\<open>registerDomain\<close>
  writes them out for \<^verbatim>\<open>AuxBilling\<close>, \<^verbatim>\<open>Tech\<close>, \<^verbatim>\<open>Admin\<close> and \<^verbatim>\<open>Registrant\<close>, in this order.
\<close>

definition role_params :: "string \<Rightarrow> contactInfo \<Rightarrow> obj" where
  "role_params role c =
     [(role @ ''FirstName'', JString (firstName c)),
      (role @ ''LastName'', JString (lastName c)),
      (role @ ''Address1'', JString (address1 c)),
      (role @ ''City'', JString (city c)),
      (role @ ''StateProvince'', JString (stateProvince c)),
      (role @ ''PostalCode'', JString (postalCode c)),
      (role @ ''Country'', JString (country c)),
      (role @ ''Phone'', JString (phone c)),
      (role @ ''EmailAddress'', JString (emailAddress c))]"

definition register_params :: "string \<Rightarrow> real \<Rightarrow> contactInfo \<Rightarrow> obj" where
  "register_params d years c =
     [(''DomainName'', JString d), (''Years'', JNumber years)]
     @ role_params ''AuxBilling'' c @ role_params ''Tech'' c
     @ role_params ''Admin'' c @ role_params ''Registrant'' c"

definition registerDomain ::
  "NamecheapConfig \<Rightarrow> 's transport \<Rightarrow> 's \<Rightarrow> string \<Rightarrow> real \<Rightarrow> contactInfo \<Rightarrow>
     (exn + string option \<times> string option) \<times> 's" where
  "registerDomain cfg tr s d years c =
     after (makeRequest cfg tr s ''namecheap.domains.create'' (register_params d years c))
       (\<lambda>response.
          and_then (item response ''CommandResponse'') (\<lambda>cr.
          and_then (item cr ''DomainCreateResult'') (\<lambda>result.
          and_then (get_attrs result) (\<lambda>a.
          and_then (get_attr a ''DomainID'') (\<lambda>domainId.
          and_then (get_attr a ''OrderID'') (\<lambda>orderId.
            Inr (domainId, orderId)))))))"

text \<open>
  The handler of the \<^verbatim>\<open>register-domain\<close> tool (\<^verbatim>\<open>src/tools/domains.ts\<close>). Its result is
  the text of the single content item; a failure is rethrown as a plain \<^verbatim>\<open>Error\<close>.
  How a template string prints the number of years is the language's business: it is
  the parameter \<open>render\<close>.
\<close>

record register_args =
  a_domain :: string
  a_years :: real
  a_firstName :: string
  a_lastName :: string
  a_address :: string
  a_city :: string
  a_stateProvince :: string
  a_postalCode :: string
  a_country :: string
  a_phone :: string
  a_email :: string

definition contact_of_args :: "register_args \<Rightarrow> contactInfo" where
  "contact_of_args args =
     \<lparr>firstName = a_firstName args, lastName = a_lastName args, address1 = a_address args,
      city = a_city args, stateProvince = a_stateProvince args, postalCode = a_postalCode args,
      country = a_country args, phone = a_phone args, emailAddress = a_email args\<rparr>"

text \<open>A string-or-undefined value inside a template string.\<close>

definition template_text :: "string option \<Rightarrow> string" where
  "template_text v = (case v of None \<Rightarrow> ''undefined'' | Some s \<Rightarrow> s)"

definition register_failed :: "exn \<Rightarrow> exn" where
  "register_failed e = Uncaught (Error_instance (''Failed to register domain: '' @ exn_message e))"

definition not_available_text :: "string \<Rightarrow> string" where
  "not_available_text d = ''Domain '' @ d @ '' is not available for registration.''"

definition registered_text ::
  "(real \<Rightarrow> string) \<Rightarrow> string \<Rightarrow> real \<Rightarrow> string option \<times> string option \<Rightarrow> string" where
  "registered_text render d years result =
     ''Successfully registered '' @ d @ '' for '' @ render years @ '' year(s)!''
     @ [CHR 0x0A, CHR 0x0A] @ ''Domain ID: '' @ template_text (fst result)
     @ [CHR 0x0A] @ ''Order ID: '' @ template_text (snd result)"

definition registerDomainTool_execute ::
  "(real \<Rightarrow> string) \<Rightarrow> NamecheapConfig \<Rightarrow> 's transport \<Rightarrow> 's \<Rightarrow> register_args \<Rightarrow>
     (exn + string) \<times> 's" where
  "registerDomainTool_execute render cfg tr s args =
     (case checkDomain cfg tr s (a_domain args) of
        (Inl e, s1) \<Rightarrow> (Inl (register_failed e), s1)
      | (Inr availability, s1) \<Rightarrow>
          if \<not> available availability then (Inr (not_available_text (a_domain args)), s1)
          else
            (case registerDomain cfg tr s1 (a_domain args) (a_years args) (contact_of_args args) of
               (Inl e, s2) \<Rightarrow> (Inl (register_failed e), s2)
             | (Inr result, s2) \<Rightarrow>
                 (Inr (registered_text render (a_domain args) (a_years args) result), s2)))"

section \<open>A remote zone store\<close>

text \<open>
  Modelled from the spec: the registrar's side of the two DNS commands, which is not
  part of the repository. The write is a full replace (``anything not included in
  \<^verbatim>\<open>records\<close> is removed from the zone''), the read returns the zone as it stands. A
  zone is addressed by the (SLD, TLD) pair and holds a list of hosts, each a list of
  attributes. The hosts of a request are those at the positions 1, 2, ... (``1-based
  index matching sequence position''), as long as a \<^verbatim>\<open>HostName\<close> is sent. The client
  sends one for every record that has a name, so its request has no gap when every
  record is named, as in every statement about the store below; what a request with a
  gap describes is not said by the spec. Of a host the registrar keeps every attribute
  that it is sent as a string (the client sends no other values for a host, and a
  parameter whose value is \<^verbatim>\<open>undefined\<close> is not part of the query string).

  What the spec leaves open is a parameter of the model: \<open>own\<close> gives the attributes
  that the registrar sets by itself on the host it stores at a position, such as the
  record identifier or a default for an optional attribute, from the hosts that the
  zone held before, the position and the attributes sent. The registrar never sets the
  name, the type or the address by itself, and an attribute that is sent takes
  precedence.
\<close>

type_synonym host_attrs = "(string \<times> string) list"

type_synonym zones = "jsval \<times> jsval \<Rightarrow> host_attrs list"

type_synonym registrar = "host_attrs list \<Rightarrow> nat \<Rightarrow> host_attrs \<Rightarrow> host_attrs"

definition attr_text :: "jsval \<Rightarrow> string option" where
  "attr_text v = (case v of JString s \<Rightarrow> Some s | _ \<Rightarrow> None)"

definition host_keys :: "(string \<times> string) list" where
  "host_keys =
     [(''Name'', ''HostName''), (''Type'', ''RecordType''), (''Address'', ''Address''),
      (''MXPref'', ''MXPref''), (''TTL'', ''TTL'')]"

definition host_of_params :: "obj \<Rightarrow> nat \<Rightarrow> host_attrs" where
  "host_of_params ps num =
     List.map_filter
       (\<lambda>(attr, key). map_option (Pair attr) (attr_text (obj_get ps (indexed key num))))
       host_keys"

definition host_count :: "obj \<Rightarrow> nat" where
  "host_count ps =
     length (takeWhile (\<lambda>num. attr_text (obj_get ps (indexed ''HostName'' num)) \<noteq> None)
               [1 ..< Suc (length ps)])"

definition hosts_of_params :: "obj \<Rightarrow> host_attrs list" where
  "hosts_of_params ps = map (host_of_params ps) [1 ..< Suc (host_count ps)]"

definition own_attrs :: "host_attrs \<Rightarrow> host_attrs" where
  "own_attrs extra = filter (\<lambda>(k, v). k \<notin> set [''Name'', ''Type'', ''Address'']) extra"

definition store_hosts :: "registrar \<Rightarrow> host_attrs list \<Rightarrow> host_attrs list \<Rightarrow> host_attrs list" where
  "store_hosts own before hosts =
     map (\<lambda>(position, h). h @ own_attrs (own before position h)) (enumerate 1 hosts)"

definition host_elem :: "host_attrs \<Rightarrow> xml" where
  "host_elem h = (if h = [] then XText [] else XElem (Some h) None [])"

definition ok_doc :: "string \<Rightarrow> (string \<times> xml list) list \<Rightarrow> (string \<times> xml) option" where
  "ok_doc command kids =
     Some (''ApiResponse'',
           XElem (Some [(''Status'', ''OK'')]) None
             [(''CommandResponse'', [XElem (Some [(''Type'', command)]) None kids])])"

definition error_doc :: "string \<Rightarrow> string \<Rightarrow> (string \<times> xml) option" where
  "error_doc number msg =
     Some (''ApiResponse'',
           XElem (Some [(''Status'', ''ERROR'')]) None
             [(''Errors'', [XElem None None [(''Error'', [XElem (Some [(''Number'', number)]) (Some msg) []])]])])"

definition get_hosts_doc :: "host_attrs list \<Rightarrow> (string \<times> xml) option" where
  "get_hosts_doc hosts =
     ok_doc ''namecheap.domains.dns.getHosts''
       [(''DomainDNSGetHostsResult'',
         [XElem (Some [(''IsUsingOurDNS'', ''true'')]) None
            (if hosts = [] then [] else [(''host'', map host_elem hosts)])])]"

definition set_hosts_doc :: "(string \<times> xml) option" where
  "set_hosts_doc =
     ok_doc ''namecheap.domains.dns.setHosts''
       [(''DomainDNSSetHostsResult'', [XElem (Some [(''IsSuccess'', ''true'')]) None []])]"

definition zone_remote :: "registrar \<Rightarrow> zones transport" where
  "zone_remote own st req =
     (let ps = req_params req;
          zone = (obj_get ps ''SLD'', obj_get ps ''TLD'')
      in if obj_get ps ''Command'' = JString ''namecheap.domains.dns.getHosts''
         then (Parsed (get_hosts_doc (st zone)), st)
         else if obj_get ps ''Command'' = JString ''namecheap.domains.dns.setHosts''
         then (Parsed set_hosts_doc, st(zone := store_hosts own (st zone) (hosts_of_params ps)))
         else (Parsed (error_doc ''1011150'' ''Parameter Command is invalid''), st))"

text \<open>
  What one round of the loop in \<^verbatim>\<open>setDNSRecords\<close> assigns for a record under each of
  the five indexed keys (\<open>None\<close> when it assigns nothing), and the attributes that the
  zone store keeps of a record: the proofs about the store are stated with these.
\<close>

definition sent :: "DNSRecord \<Rightarrow> string \<Rightarrow> jsval option" where
  "sent r key =
     (if key = ''HostName'' then Some (js_of (name r))
      else if key = ''RecordType'' then Some (js_of (type r))
      else if key = ''Address'' then Some (js_of (address r))
      else if key = ''MXPref'' then (if truthy (mxPref r) then Some (js_of (mxPref r)) else None)
      else if key = ''TTL'' then (if truthy (ttl r) then Some (js_of (ttl r)) else None)
      else None)"

definition param_keys :: "string list" where
  "param_keys = [''HostName'', ''RecordType'', ''Address'', ''MXPref'', ''TTL'']"

definition stored_attrs :: "DNSRecord \<Rightarrow> host_attrs" where
  "stored_attrs r =
     List.map_filter
       (\<lambda>(attr, key). map_option (Pair attr) (case sent r key of None \<Rightarrow> None | Some v \<Rightarrow> attr_text v))
       host_keys"

text \<open>The record that \<^verbatim>\<open>getDNSRecords\<close> builds from the attributes of one host.\<close>

definition record_of_attrs :: "host_attrs \<Rightarrow> DNSRecord" where
  "record_of_attrs h =
     \<lparr>hostId = map_of h ''HostId'', name = map_of h ''Name'', type = map_of h ''Type'',
      address = map_of h ''Address'', mxPref = map_of h ''MXPref'', ttl = map_of h ''TTL''\<rparr>"

text \<open>The composition \<^verbatim>\<open>setDNSRecords(d, await getDNSRecords(d))\<close>.\<close>

definition round_trip ::
  "NamecheapConfig \<Rightarrow> 's transport \<Rightarrow> 's \<Rightarrow> string \<Rightarrow> (exn + unit) \<times> 's" where
  "round_trip cfg tr s d =
     (case getDNSRecords cfg tr s d of
        (Inl e, s1) \<Rightarrow> (Inl e, s1)
      | (Inr records, s1) \<Rightarrow> setDNSRecords cfg tr s1 d records)"

section \<open>A scripted transport and sample inputs\<close>

text \<open>
  A transport that replays a list of prepared outcomes and records every request it is
  given; once the list is exhausted the connection is refused.
\<close>

definition replay :: "(outcome list \<times> request list) transport" where
  "replay st req =
     (case st of
        ([], requests) \<Rightarrow> (Thrown (Error_instance ''connect ECONNREFUSED''), ([], requests @ [req]))
      | (out # outs, requests) \<Rightarrow> (out, (outs, requests @ [req])))"

definition example_config :: NamecheapConfig where
  "example_config = \<lparr>apiUser = ''alice'', apiKey = ''k3y'', clientIp = ''10.0.0.1'', sandbox = Some True\<rparr>"

definition example_contact :: contactInfo where
  "example_contact =
     \<lparr>firstName = ''Ada'', lastName = ''Lovelace'', address1 = ''1 Main St'', city = ''London'',
      stateProvince = ''LDN'', postalCode = ''N1'', country = ''GB'', phone = ''+44.2000000000'',
      emailAddress = ''ada@example.com''\<rparr>"

definition example_args :: register_args where
  "example_args =
     \<lparr>a_domain = ''example.com'', a_years = 2, a_firstName = ''Ada'', a_lastName = ''Lovelace'',
      a_address = ''1 Main St'', a_city = ''London'', a_stateProvince = ''LDN'',
      a_postalCode = ''N1'', a_country = ''GB'', a_phone = ''+44.2000000000'',
      a_email = ''ada@example.com''\<rparr>"

definition taken_doc :: "(string \<times> xml) option" where
  "taken_doc =
     ok_doc ''namecheap.domains.check''
       [(''DomainCheckResult'',
         [XElem (Some [(''Domain'', ''example.com''), (''Available'', ''false'')]) None []])]"

definition free_doc :: "(string \<times> xml) option" where
  "free_doc =
     ok_doc ''namecheap.domains.check''
       [(''DomainCheckResult'',
         [XElem (Some [(''Domain'', ''example.com''), (''Available'', ''true'')]) None []])]"

definition created_doc :: "(string \<times> xml) option" where
  "created_doc =
     ok_doc ''namecheap.domains.create''
       [(''DomainCreateResult'',
         [XElem (Some [(''Domain'', ''example.com''), (''Registered'', ''true''),
                       (''DomainID'', ''123''), (''OrderID'', ''456'')]) None []])]"

definition check_request :: request where
  "check_request =
     \<lparr>req_url = apiUrl example_config,
      req_params = requestParams example_config ''namecheap.domains.check''
                     [(''DomainList'', JString ''example.com'')]\<rparr>"

definition create_request :: request where
  "create_request =
     \<lparr>req_url = apiUrl example_config,
      req_params = requestParams example_config ''namecheap.domains.create''
                     (register_params ''example.com'' 2 (contact_of_args example_args))\<rparr>"

definition example_hosts :: "host_attrs list" where
  "example_hosts =
     [[(''HostId'', ''11''), (''Name'', ''a''), (''Type'', ''A''), (''Address'', ''1.1.1.1''),
       (''MXPref'', ''10''), (''TTL'', ''1800'')],
      [(''HostId'', ''12''), (''Name'', ''b''), (''Type'', ''A''), (''Address'', ''2.2.2.2''),
       (''MXPref'', ''10''), (''TTL'', ''1800'')]]"

definition record_a :: DNSRecord where
  "record_a = \<lparr>hostId = Some ''11'', name = Some ''a'', type = Some ''A'',
               address = Some ''1.1.1.1'', mxPref = Some ''10'', ttl = Some ''1800''\<rparr>"

definition record_b :: DNSRecord where
  "record_b = \<lparr>hostId = Some ''12'', name = Some ''b'', type = Some ''A'',
               address = Some ''2.2.2.2'', mxPref = Some ''10'', ttl = Some ''1800''\<rparr>"

definition after_read :: "outcome list \<times> request list" where
  "after_read =
     ([Parsed set_hosts_doc],
      [\<lparr>req_url = apiUrl example_config,
        req_params = requestParams example_config ''namecheap.domains.dns.getHosts''
                       [(''SLD'', sld_of ''example.com''), (''TLD'', tld_of ''example.com'')]\<rparr>])"

definition empty_list_doc :: "(string \<times> xml) option" where
  "empty_list_doc =
     Some (''ApiResponse'',
           XElem (Some [(''Status'', ''OK'')]) None
             [(''CommandResponse'',
               [XElem (Some [(''Type'', ''namecheap.domains.getList'')]) None
                  [(''DomainGetListResult'', [XText []])]]),
              (''Paging'', [XElem (Some [(''TotalItems'', ''37''), (''CurrentPage'', ''5'')]) None []])])"

text \<open>A reading of whole numbers that knows the one value of the sample reply.\<close>

definition example_parseInt :: "string option \<Rightarrow> int option" where
  "example_parseInt v = (if v = Some ''37'' then Some 37 else None)"

text \<open>
  A rendering of numbers that gives a whole number from 0 on its decimal digits, as the
  language does for the small ones.
\<close>

definition example_render :: "real \<Rightarrow> string" where
  "example_render years = digits_of (nat \<lfloor>years\<rfloor>)"

text \<open>
  A registrar that numbers the hosts of a zone by position and fills in a priority and
  a time to live of its own where none is sent.
\<close>

definition example_own :: registrar where
  "example_own before position h =
     [(''HostId'', digits_of position), (''MXPref'', ''10''), (''TTL'', ''1800'')]"

definition example_zones :: zones where
  "example_zones = (\<lambda>zone. [])((JString ''example'', JString ''com'') := example_hosts)"

definition record_www :: DNSRecord where
  "record_www = \<lparr>hostId = None, name = Some ''www'', type = Some ''A'',
                 address = Some ''3.3.3.3'', mxPref = None, ttl = None\<rparr>"

section \<open>Basic facts\<close>

lemma and_then_simps [simp]:
  "and_then (Inl e) f = Inl e" "and_then (Inr a) f = f a"
  by (simp_all add: and_then_def)

lemma map_of_spread:
  "distinct (map fst extra) \<Longrightarrow>
   map_of (spread base extra) k = (case map_of extra k of Some v \<Rightarrow> Some v | None \<Rightarrow> map_of base k)"
proof (induction extra arbitrary: base)
  case Nil
  then show ?case by (simp add: spread_def)
next
  case (Cons kv extra)
  obtain k' v' where kv: "kv = (k', v')" by (cases kv)
  from Cons.prems kv have d: "distinct (map fst extra)" and nk: "map_of extra k' = None"
    by (auto simp: map_of_eq_None_iff)
  have step: "spread base (kv # extra) = spread (obj_set base k' v') extra"
    by (simp add: spread_def kv)
  have base': "\<And>j. map_of (obj_set base k' v') j = (if j = k' then Some v' else map_of base j)"
    by (simp add: obj_set_def update_conv')
  have "map_of (spread base (kv # extra)) k
          = (case map_of extra k of Some v \<Rightarrow> Some v | None \<Rightarrow> map_of (obj_set base k' v') k)"
    unfolding step by (rule Cons.IH [OF d])
  then show ?case
    using nk by (simp add: base' kv split: option.splits)
qed

lemma obj_get_spread:
  "distinct (map fst extra) \<Longrightarrow>
   obj_get (spread base extra) k = (case map_of extra k of Some v \<Rightarrow> v | None \<Rightarrow> obj_get base k)"
  by (simp add: obj_get_def map_of_spread split: option.splits)

lemma after_Inl [simp]: "after (Inl e, s') f = (Inl e, s')"
  by (simp add: after_def)

lemma after_Inr [simp]: "after (Inr a, s') f = (f a, s')"
  by (simp add: after_def)

lemma fst_after_Inl: "fst r = Inl e \<Longrightarrow> fst (after r f) = Inl e"
  by (cases r) (simp add: after_def)

lemma accessors_uncaught [simp]:
  "get_attrs x \<noteq> Inl (NamecheapError m code details)"
  "get_attr a k \<noteq> Inl (NamecheapError m code details)"
  "get_text x \<noteq> Inl (NamecheapError m code details)"
  "get_child x k \<noteq> Inl (NamecheapError m code details)"
  "at0 arr \<noteq> Inl (NamecheapError m code details)"
  "item x k \<noteq> Inl (NamecheapError m code details)"
  by (auto simp: get_attrs_def get_attr_def get_text_def get_child_def at0_def item_def and_then_def
      split: option.splits xml.splits list.splits sum.splits)

lemma try_block_details:
  "try_block out = Inl (NamecheapError m code details) \<Longrightarrow> details = None"
  by (auto simp: try_block_def check_response_def and_then_def
      split: outcome.splits option.splits prod.splits sum.splits if_splits)

lemma reported_error:
  assumes "map_of attrs ''Status'' = Some ''ERROR''"
    and "map_of kids ''Errors'' = Some (XElem ea et ekids # rest)"
    and "map_of ekids ''Error'' = Some (XElem (Some eattrs) (Some msg) ks # others)"
    and "map_of eattrs ''Number'' = Some num"
  shows "check_response (Some (''ApiResponse'', XElem (Some attrs) t kids))
           = Inl (NamecheapError msg (Some num) None)"
  using assms
  by (simp add: check_response_def get_attrs_def get_attr_def item_def get_child_def at0_def
      get_text_def)

lemma snd_makeRequest:
  "snd (makeRequest cfg tr s command ps)
     = snd (tr s \<lparr>req_url = apiUrl cfg, req_params = requestParams cfg command ps\<rparr>)"
  by (simp add: makeRequest_def split: prod.splits sum.splits)

lemma snd_after [simp]: "snd (after r f) = snd r"
  by (cases r) (simp add: after_def)

lemma gateway_ok:
  assumes "tr s \<lparr>req_url = apiUrl cfg, req_params = requestParams cfg command ps\<rparr>
             = (Parsed (Some (''ApiResponse'', XElem (Some attrs) t kids)), s')"
    and "map_of attrs ''Status'' \<noteq> Some ''ERROR''"
  shows "makeRequest cfg tr s command ps = (Inr (Some (XElem (Some attrs) t kids)), s')"
  using assms
  by (simp add: makeRequest_def try_block_def check_response_def get_attrs_def get_attr_def)

lemma all_fields_complete: "f \<in> set all_fields"
  by (cases f) (simp_all add: all_fields_def)

lemma matches_iff:
  "matches criteria r \<longleftrightarrow> (\<forall>f v. criteria f = Some v \<longrightarrow> get_field r f = v)"
proof -
  have "matches criteria r \<longleftrightarrow> (\<forall>f \<in> set all_fields. \<forall>v. criteria f = Some v \<longrightarrow> get_field r f = v)"
    by (auto simp: matches_def entries_def list_all_iff List.map_filter_def)
  then show ?thesis using all_fields_complete by auto
qed

lemma get_field_merge_updates:
  "get_field (merge_updates r updates) f = (case updates f of Some v \<Rightarrow> v | None \<Rightarrow> get_field r f)"
  by (cases f)
    (simp_all add: merge_updates_def entries_def all_fields_def split: option.splits)

lemma read_example:
  "getDNSRecords example_config replay
     ([Parsed (get_hosts_doc example_hosts), Parsed set_hosts_doc], []) ''example.com''
   = (Inr [record_a, record_b], after_read)"
  by (simp add: getDNSRecords_def makeRequest_def replay_def try_block_def check_response_def
      get_hosts_doc_def ok_doc_def example_hosts_def host_elem_def get_attrs_def get_attr_def
      item_def get_child_def at0_def or_empty_def record_of_host_def record_a_def record_b_def
      after_read_def)

lemma distinct_register_params: "distinct (map fst (register_params d years c))"
  by (simp add: register_params_def role_params_def)

lemma register_params_roles:
  assumes "role \<in> set [''Registrant'', ''Admin'', ''Tech'', ''AuxBilling'']"
  shows "obj_get (requestParams cfg command (register_params d years c)) (role @ ''FirstName'') = JString (firstName c)
       \<and> obj_get (requestParams cfg command (register_params d years c)) (role @ ''LastName'') = JString (lastName c)
       \<and> obj_get (requestParams cfg command (register_params d years c)) (role @ ''Address1'') = JString (address1 c)
       \<and> obj_get (requestParams cfg command (register_params d years c)) (role @ ''City'') = JString (city c)
       \<and> obj_get (requestParams cfg command (register_params d years c)) (role @ ''StateProvince'') = JString (stateProvince c)
       \<and> obj_get (requestParams cfg command (register_params d years c)) (role @ ''PostalCode'') = JString (postalCode c)
       \<and> obj_get (requestParams cfg command (register_params d years c)) (role @ ''Country'') = JString (country c)
       \<and> obj_get (requestParams cfg command (register_params d years c)) (role @ ''Phone'') = JString (phone c)
       \<and> obj_get (requestParams cfg command (register_params d years c)) (role @ ''EmailAddress'') = JString (emailAddress c)"
proof -
  have look: "obj_get (requestParams cfg command (register_params d years c)) k
                = (case map_of (register_params d years c) k of Some v \<Rightarrow> v
                   | None \<Rightarrow> obj_get (identity_params cfg command) k)" for k
    unfolding requestParams_def by (rule obj_get_spread [OF distinct_register_params])
  from assms consider "role = ''Registrant''" | "role = ''Admin''" | "role = ''Tech''"
    | "role = ''AuxBilling''"
    by auto
  then show ?thesis
  proof cases
    case 1 show ?thesis unfolding look 1 by (simp add: register_params_def role_params_def)
  next
    case 2 show ?thesis unfolding look 2 by (simp add: register_params_def role_params_def)
  next
    case 3 show ?thesis unfolding look 3 by (simp add: register_params_def role_params_def)
  next
    case 4 show ?thesis unfolding look 4 by (simp add: register_params_def role_params_def)
  qed
qed

section \<open>Facts about the request of \<^verbatim>\<open>setDNSRecords\<close> and the zone store\<close>

lemma digit_value_digit_char: "d < 10 \<Longrightarrow> digit_value (digit_char d) = d"
proof -
  assume "d < 10"
  then consider "d = 0" | "d = 1" | "d = 2" | "d = 3" | "d = 4" | "d = 5" | "d = 6" | "d = 7"
    | "d = 8" | "d = 9"
    by atomize_elim arith
  then show ?thesis
    by cases (simp_all add: digit_char_def digit_value_def)
qed

lemma digits_value_snoc: "digits_value (ds @ [c]) = 10 * digits_value ds + digit_value c"
  by (simp add: digits_value_def)

lemma digits_value_digits_of: "digits_value (digits_of n) = n"
proof (induction n rule: digits_of.induct)
  case (1 n)
  show ?case
  proof (cases "n < 10")
    case True
    then show ?thesis
      by (subst digits_of.simps) (simp add: digits_value_def digit_value_digit_char)
  next
    case False
    with 1 have "digits_value (digits_of (n div 10)) = n div 10" by simp
    with False show ?thesis
      by (subst digits_of.simps) (simp add: digits_value_snoc digit_value_digit_char)
  qed
qed

lemma digits_of_inj: "digits_of m = digits_of n \<Longrightarrow> m = n"
  by (metis digits_value_digits_of)

lemma indexed_digits: "indexed k num = k @ digits_of num"
  by (simp add: indexed_def)

lemma indexed_inj [simp]: "indexed k m = indexed k n \<longleftrightarrow> m = n"
  by (auto simp: indexed_digits dest: digits_of_inj)

lemma digits_of_eq_iff [simp]: "digits_of m = digits_of n \<longleftrightarrow> m = n"
  by (auto dest: digits_of_inj)

lemma map_of_obj_set: "map_of (obj_set ps k v) j = (if j = k then Some v else map_of ps j)"
  by (simp add: obj_set_def update_conv')

lemma map_of_set_host:
  assumes "key \<in> set param_keys"
  shows "map_of (set_host ps (index, r)) (indexed key num)
           = (if num = index + 1 \<and> sent r key \<noteq> None then sent r key
              else map_of ps (indexed key num))"
proof -
  from assms consider "key = ''HostName''" | "key = ''RecordType''" | "key = ''Address''"
    | "key = ''MXPref''" | "key = ''TTL''"
    by (auto simp: param_keys_def)
  then show ?thesis
    by cases (simp_all add: set_host_def Let_def map_of_obj_set sent_def indexed_digits)
qed

lemma map_of_set_host_other:
  assumes "\<forall>key \<in> set param_keys. \<forall>num. k \<noteq> indexed key num"
  shows "map_of (set_host ps (index, r)) k = map_of ps k"
  using assms by (simp add: set_host_def Let_def map_of_obj_set param_keys_def)

lemma host_params_snoc: "host_params d (rs @ [r]) = set_host (host_params d rs) (length rs, r)"
  by (simp add: host_params_def enumerate_append_eq)

lemma map_of_host_params:
  assumes "key \<in> set param_keys"
  shows "map_of (host_params d rs) (indexed key num)
           = (if 1 \<le> num \<and> num \<le> length rs then sent (rs ! (num - 1)) key else None)"
proof (induction rs rule: rev_induct)
  case Nil
  from assms show ?case
    by (auto simp: host_params_def param_keys_def indexed_digits)
next
  case (snoc r rs)
  show ?case
  proof (cases "num = length rs + 1")
    case True
    with snoc show ?thesis
      by (simp add: host_params_snoc map_of_set_host [OF assms])
  next
    case False
    with snoc show ?thesis
      by (auto simp: host_params_snoc map_of_set_host [OF assms] nth_append)
  qed
qed

lemma map_of_host_params_other:
  assumes "\<forall>key \<in> set param_keys. \<forall>num. k \<noteq> indexed key num"
  shows "map_of (host_params d rs) k = map_of [(''SLD'', sld_of d), (''TLD'', tld_of d)] k"
proof (induction rs rule: rev_induct)
  case Nil
  show ?case by (simp add: host_params_def)
next
  case (snoc r rs)
  then show ?case
    by (simp add: host_params_snoc map_of_set_host_other [OF assms])
qed

lemma distinct_set_host: "distinct (map fst ps) \<Longrightarrow> distinct (map fst (set_host ps ir))"
  by (cases ir) (simp add: set_host_def Let_def obj_set_def distinct_update)

lemma distinct_host_params: "distinct (map fst (host_params d rs))"
proof (induction rs rule: rev_induct)
  case Nil
  show ?case by (simp add: host_params_def)
next
  case (snoc r rs)
  then show ?case by (simp add: host_params_snoc distinct_set_host)
qed

lemma request_lookup:
  "obj_get (requestParams cfg command (host_params d rs)) k
     = (case map_of (host_params d rs) k of Some v \<Rightarrow> v
        | None \<Rightarrow> obj_get (identity_params cfg command) k)"
  unfolding requestParams_def by (rule obj_get_spread [OF distinct_host_params])

lemma request_command:
  "obj_get (requestParams cfg command (host_params d rs)) ''Command'' = JString command"
  "obj_get (requestParams cfg command (host_params d rs)) ''SLD'' = sld_of d"
  "obj_get (requestParams cfg command (host_params d rs)) ''TLD'' = tld_of d"
  unfolding request_lookup
  by (simp_all add: map_of_host_params_other param_keys_def indexed_digits
      identity_params_def obj_get_def)

lemma request_indexed:
  assumes "key \<in> set param_keys"
  shows "attr_text (obj_get (requestParams cfg command (host_params d rs)) (indexed key num))
           = (if 1 \<le> num \<and> num \<le> length rs
              then (case sent (rs ! (num - 1)) key of None \<Rightarrow> None | Some v \<Rightarrow> attr_text v)
              else None)"
proof -
  have "obj_get (identity_params cfg command) (indexed key num) = JUndefined"
    using assms by (auto simp: identity_params_def obj_get_def param_keys_def indexed_digits)
  then show ?thesis
    unfolding request_lookup
    by (simp add: map_of_host_params [OF assms] attr_text_def split: option.splits)
qed

lemma takeWhile_upt:
  assumes "\<forall>i. 1 \<le> i \<and> i \<le> n \<longrightarrow> P i" and "\<not> P (Suc n)" and "n \<le> m"
  shows "takeWhile P [1 ..< Suc m] = [1 ..< Suc n]"
proof -
  have split: "[1 ..< Suc m] = [1 ..< Suc n] @ [Suc n ..< Suc m]"
    using assms(3) by (metis Suc_le_mono le_add_diff_inverse upt_add_eq_append One_nat_def le_add1 plus_1_eq_Suc)
  have rest: "takeWhile P [Suc n ..< Suc m] = []"
  proof (cases "n < m")
    case True
    then have "[Suc n ..< Suc m] = Suc n # [Suc (Suc n) ..< Suc m]"
      by (simp add: upt_conv_Cons)
    with assms(2) show ?thesis by simp
  next
    case False
    then show ?thesis by simp
  qed
  have "takeWhile P ([1 ..< Suc n] @ [Suc n ..< Suc m]) = [1 ..< Suc n] @ takeWhile P [Suc n ..< Suc m]"
    using assms(1) by (intro takeWhile_append2) auto
  with split rest show ?thesis by simp
qed

lemma keys_bound:
  assumes "\<forall>i. 1 \<le> i \<and> i \<le> n \<longrightarrow> map_of ps (indexed k i) \<noteq> None"
  shows "n \<le> length ps"
proof -
  have "(\<lambda>i. indexed k i) ` {1 .. n} \<subseteq> fst ` set ps"
    using assms by (auto simp: map_of_eq_None_iff)
  then have "card ((\<lambda>i. indexed k i) ` {1 .. n}) \<le> card (fst ` set ps)"
    by (intro card_mono) auto
  moreover have "card ((\<lambda>i. indexed k i) ` {1 .. n}) = n"
    by (subst card_image) (auto simp: inj_on_def)
  moreover have "card (fst ` set ps) \<le> length ps"
    by (metis card_image_le card_length le_trans List.finite_set)
  ultimately show ?thesis by simp
qed

lemma attr_text_js_of [simp]: "attr_text (js_of v) = v"
  by (cases v) (simp_all add: attr_text_def js_of_def)

lemma host_name_sent:
  "attr_text (obj_get (requestParams cfg command (host_params d rs)) (indexed ''HostName'' num))
     = (if 1 \<le> num \<and> num \<le> length rs then name (rs ! (num - 1)) else None)"
  by (simp add: request_indexed param_keys_def sent_def)

lemma host_count_request:
  assumes "\<forall>r \<in> set rs. name r \<noteq> None"
  shows "host_count (requestParams cfg command (host_params d rs)) = length rs"
proof -
  let ?ps = "requestParams cfg command (host_params d rs)"
  let ?P = "\<lambda>num. attr_text (obj_get ?ps (indexed ''HostName'' num)) \<noteq> None"
  have inside: "\<forall>i. 1 \<le> i \<and> i \<le> length rs \<longrightarrow> ?P i"
  proof (intro allI impI)
    fix i assume i: "1 \<le> i \<and> i \<le> length rs"
    then have "rs ! (i - 1) \<in> set rs" by (intro nth_mem) arith
    with assms have "name (rs ! (i - 1)) \<noteq> None" by blast
    with i show "?P i" by (simp add: host_name_sent)
  qed
  have outside: "\<not> ?P (Suc (length rs))"
    by (simp add: host_name_sent)
  have "\<forall>i. 1 \<le> i \<and> i \<le> length rs \<longrightarrow> map_of ?ps (indexed ''HostName'' i) \<noteq> None"
  proof (intro allI impI)
    fix i assume "1 \<le> i \<and> i \<le> length rs"
    with inside have "?P i" by blast
    then show "map_of ?ps (indexed ''HostName'' i) \<noteq> None"
      by (auto simp: obj_get_def attr_text_def split: option.splits)
  qed
  then have bound: "length rs \<le> length ?ps"
    by (rule keys_bound)
  have "takeWhile ?P [1 ..< Suc (length ?ps)] = [1 ..< Suc (length rs)]"
    using inside outside bound by (rule takeWhile_upt)
  then have "length (takeWhile ?P [1 ..< Suc (length ?ps)]) = length [1 ..< Suc (length rs)]"
    by (rule arg_cong)
  also have "\<dots> = length rs"
    by (simp del: upt_Suc)
  finally show ?thesis
    unfolding host_count_def .
qed

lemma map_filter_eq:
  "\<forall>x \<in> set xs. f x = g x \<Longrightarrow> List.map_filter f xs = List.map_filter g xs"
  by (induction xs) (auto split: option.splits)

lemma host_of_request:
  assumes "1 \<le> num" and "num \<le> length rs"
  shows "host_of_params (requestParams cfg command (host_params d rs)) num
           = stored_attrs (rs ! (num - 1))"
  unfolding host_of_params_def stored_attrs_def
  by (rule map_filter_eq) (use assms in \<open>auto simp: host_keys_def request_indexed param_keys_def\<close>)

lemma hosts_of_request:
  assumes "\<forall>r \<in> set rs. name r \<noteq> None"
  shows "hosts_of_params (requestParams cfg command (host_params d rs)) = map stored_attrs rs"
proof (rule nth_equalityI)
  show "length (hosts_of_params (requestParams cfg command (host_params d rs)))
          = length (map stored_attrs rs)"
    by (simp add: hosts_of_params_def host_count_request [OF assms] del: upt_Suc)
next
  fix i
  assume "i < length (hosts_of_params (requestParams cfg command (host_params d rs)))"
  then have i: "i < length rs"
    by (simp add: hosts_of_params_def host_count_request [OF assms] del: upt_Suc)
  then have "hosts_of_params (requestParams cfg command (host_params d rs)) ! i
               = host_of_params (requestParams cfg command (host_params d rs)) (Suc i)"
    by (simp add: hosts_of_params_def host_count_request [OF assms] nth_map_upt [of i "Suc (length rs)" 1] del: upt_Suc)
  also have "\<dots> = stored_attrs (rs ! i)"
    using i host_of_request [of "Suc i" rs cfg command d] by simp
  finally show "hosts_of_params (requestParams cfg command (host_params d rs)) ! i
                  = map stored_attrs rs ! i"
    using i by simp
qed

lemma map_all_Inr: "\<forall>x \<in> set xs. f x = Inr (g x) \<Longrightarrow> map_all f xs = Inr (map g xs)"
  by (induction xs) simp_all

lemma record_of_host_elem:
  "h \<noteq> [] \<Longrightarrow> record_of_host (host_elem h) = Inr (record_of_attrs h)"
  by (simp add: record_of_host_def host_elem_def get_attrs_def get_attr_def record_of_attrs_def)

lemma try_block_ok:
  "try_block (Parsed (ok_doc command kids))
     = Inr (Some (XElem (Some [(''Status'', ''OK'')]) None
              [(''CommandResponse'', [XElem (Some [(''Type'', command)]) None kids])]))"
  by (simp add: try_block_def check_response_def ok_doc_def get_attrs_def get_attr_def)

lemma zone_write:
  "setDNSRecords cfg (zone_remote own) st d rs
     = (Inr (), st((sld_of d, tld_of d) :=
                     store_hosts own (st (sld_of d, tld_of d))
                       (hosts_of_params (requestParams cfg ''namecheap.domains.dns.setHosts''
                                           (host_params d rs)))))"
  by (simp add: setDNSRecords_def makeRequest_def zone_remote_def request_command
      set_hosts_doc_def try_block_ok Let_def)

lemma read_request:
  "obj_get (requestParams cfg command [(''SLD'', x), (''TLD'', y)]) ''Command'' = JString command"
  "obj_get (requestParams cfg command [(''SLD'', x), (''TLD'', y)]) ''SLD'' = x"
  "obj_get (requestParams cfg command [(''SLD'', x), (''TLD'', y)]) ''TLD'' = y"
  by (simp_all add: requestParams_def obj_get_def map_of_spread identity_params_def)

lemma zone_read_reply:
  "makeRequest cfg (zone_remote own) st ''namecheap.domains.dns.getHosts''
     [(''SLD'', x), (''TLD'', y)]
     = (Inr (Some (XElem (Some [(''Status'', ''OK'')]) None
              [(''CommandResponse'',
                [XElem (Some [(''Type'', ''namecheap.domains.dns.getHosts'')]) None
                   [(''DomainDNSGetHostsResult'',
                     [XElem (Some [(''IsUsingOurDNS'', ''true'')]) None
                        (if st (x, y) = [] then [] else [(''host'', map host_elem (st (x, y)))])])]])])),
        st)"
  by (simp add: makeRequest_def zone_remote_def read_request get_hosts_doc_def try_block_ok)

lemma zone_read:
  "getDNSRecords cfg (zone_remote own) st d
     = (map_all record_of_host (map host_elem (st (sld_of d, tld_of d))), st)"
  by (simp add: getDNSRecords_def zone_read_reply item_def get_child_def at0_def or_empty_def)

lemma map_all_hosts:
  "\<forall>h \<in> set hs. h \<noteq> [] \<Longrightarrow>
   map_all record_of_host (map host_elem hs) = Inr (map record_of_attrs hs)"
  by (induction hs) (simp_all add: record_of_host_elem)

lemma zone_read_named:
  assumes "\<forall>h \<in> set (st (sld_of d, tld_of d)). map_of h ''Name'' \<noteq> None"
  shows "getDNSRecords cfg (zone_remote own) st d
           = (Inr (map record_of_attrs (st (sld_of d, tld_of d))), st)"
proof -
  have "\<forall>h \<in> set (st (sld_of d, tld_of d)). h \<noteq> []"
    using assms by auto
  then show ?thesis
    by (simp add: zone_read map_all_hosts)
qed

lemma map_of_stored_attrs:
  "map_of (stored_attrs w) ''Name'' = name w"
  "map_of (stored_attrs w) ''Type'' = type w"
  "map_of (stored_attrs w) ''Address'' = address w"
  "map_of (stored_attrs w) ''MXPref'' = (if truthy (mxPref w) then mxPref w else None)"
  "map_of (stored_attrs w) ''TTL'' = (if truthy (ttl w) then ttl w else None)"
  "map_of (stored_attrs w) ''HostId'' = None"
  by (cases "name w"; cases "type w"; cases "address w"; cases "mxPref w"; cases "ttl w";
      simp add: stored_attrs_def host_keys_def sent_def truthy_def js_of_def attr_text_def)+

lemma map_of_own_attrs:
  "map_of (own_attrs extra) ''Name'' = None"
  "map_of (own_attrs extra) ''Type'' = None"
  "map_of (own_attrs extra) ''Address'' = None"
  by (auto simp: own_attrs_def map_of_eq_None_iff)

text \<open>
  What \<^verbatim>\<open>getDNSRecords\<close> reads of a record that was written, whatever the registrar
  adds by itself.
\<close>

lemma kept_fields:
  "name (record_of_attrs (stored_attrs w @ own_attrs extra)) = name w"
  "type (record_of_attrs (stored_attrs w @ own_attrs extra)) = type w"
  "address (record_of_attrs (stored_attrs w @ own_attrs extra)) = address w"
  "truthy (mxPref w) \<Longrightarrow> mxPref (record_of_attrs (stored_attrs w @ own_attrs extra)) = mxPref w"
  "truthy (ttl w) \<Longrightarrow> ttl (record_of_attrs (stored_attrs w @ own_attrs extra)) = ttl w"
  by (auto simp: record_of_attrs_def map_add_def map_of_stored_attrs map_of_own_attrs truthy_def
      split: option.splits)

lemma length_store_hosts [simp]: "length (store_hosts own before hosts) = length hosts"
  by (simp add: store_hosts_def)

lemma nth_store_hosts:
  "i < length hosts \<Longrightarrow>
   store_hosts own before hosts ! i = hosts ! i @ own_attrs (own before (Suc i) (hosts ! i))"
  by (simp add: store_hosts_def nth_enumerate_eq)

lemma zone_write_then_read:
  assumes "\<forall>r \<in> set rs. name r \<noteq> None"
    and "H = store_hosts own (st (sld_of d, tld_of d)) (map stored_attrs rs)"
  shows "setDNSRecords cfg (zone_remote own) st d rs = (Inr (), st((sld_of d, tld_of d) := H))"
    and "getDNSRecords cfg (zone_remote own) (st((sld_of d, tld_of d) := H)) d
           = (Inr (map record_of_attrs H), st((sld_of d, tld_of d) := H))"
proof -
  let ?zone = "(sld_of d, tld_of d)"
  let ?st' = "st(?zone := H)"
  show "setDNSRecords cfg (zone_remote own) st d rs = (Inr (), ?st')"
    by (simp add: zone_write hosts_of_request [OF assms(1)] assms(2))
  have host: "H ! i = stored_attrs (rs ! i)
                 @ own_attrs (own (st ?zone) (Suc i) (stored_attrs (rs ! i)))"
    if "i < length rs" for i
    using that by (simp add: assms(2) nth_store_hosts)
  have "\<forall>h \<in> set H. map_of h ''Name'' \<noteq> None"
  proof
    fix h assume "h \<in> set H"
    then obtain i where i: "i < length rs" and h: "h = H ! i"
      by (auto simp: in_set_conv_nth assms(2))
    from i assms(1) have "name (rs ! i) \<noteq> None" by simp
    then show "map_of h ''Name'' \<noteq> None"
      by (auto simp: h host [OF i] map_add_def map_of_stored_attrs split: option.splits)
  qed
  then have "\<forall>h \<in> set (?st' ?zone). map_of h ''Name'' \<noteq> None"
    by simp
  then have "getDNSRecords cfg (zone_remote own) ?st' d
               = (Inr (map record_of_attrs (?st' ?zone)), ?st')"
    by (rule zone_read_named)
  then show "getDNSRecords cfg (zone_remote own) ?st' d = (Inr (map record_of_attrs H), ?st')"
    by simp
qed

lemma zone_write_read:
  assumes "\<forall>r \<in> set rs. name r \<noteq> None"
  shows "\<exists>st' later.
           setDNSRecords cfg (zone_remote own) st d rs = (Inr (), st')
         \<and> getDNSRecords cfg (zone_remote own) st' d = (Inr later, st')
         \<and> length later = length rs
         \<and> (\<forall>i < length rs.
              name (later ! i) = name (rs ! i) \<and> type (later ! i) = type (rs ! i)
            \<and> address (later ! i) = address (rs ! i)
            \<and> (truthy (mxPref (rs ! i)) \<longrightarrow> mxPref (later ! i) = mxPref (rs ! i))
            \<and> (truthy (ttl (rs ! i)) \<longrightarrow> ttl (later ! i) = ttl (rs ! i)))"
proof -
  let ?zone = "(sld_of d, tld_of d)"
  let ?hosts = "store_hosts own (st ?zone) (map stored_attrs rs)"
  let ?later = "map record_of_attrs ?hosts"
  note wr = zone_write_then_read [OF assms refl, of cfg own st d]
  have "\<forall>i < length rs.
              name (?later ! i) = name (rs ! i) \<and> type (?later ! i) = type (rs ! i)
            \<and> address (?later ! i) = address (rs ! i)
            \<and> (truthy (mxPref (rs ! i)) \<longrightarrow> mxPref (?later ! i) = mxPref (rs ! i))
            \<and> (truthy (ttl (rs ! i)) \<longrightarrow> ttl (?later ! i) = ttl (rs ! i))"
    by (simp add: nth_store_hosts kept_fields)
  with wr show ?thesis
    by (intro exI [of _ "st(?zone := ?hosts)"] exI [of _ ?later]) simp
qed

text \<open>Records that agree position by position on name, type and address.\<close>

lemma same_identities:
  assumes "length later = length rs"
    and "\<forall>i < length rs.
           name (later ! i) = name (rs ! i) \<and> type (later ! i) = type (rs ! i)
         \<and> address (later ! i) = address (rs ! i)"
  shows "map (\<lambda>x. (name x, type x, address x)) later = map (\<lambda>x. (name x, type x, address x)) rs"
  using assms by (intro nth_equalityI) simp_all

lemma sld_tld_example: "sld_of ''example.com'' = JString ''example''" "tld_of ''example.com'' = JString ''com''"
  by (simp_all add: sld_of_def tld_of_def)

lemma read_example_zone:
  "getDNSRecords example_config (zone_remote own) example_zones ''example.com''
     = (Inr [record_a, record_b], example_zones)"
proof -
  have "\<forall>h \<in> set (example_zones (sld_of ''example.com'', tld_of ''example.com'')). map_of h ''Name'' \<noteq> None"
    by (simp add: sld_tld_example example_zones_def example_hosts_def)
  then show ?thesis
    using zone_read_named [of example_zones "''example.com''" example_config own]
    by (simp add: sld_tld_example example_zones_def example_hosts_def record_of_attrs_def
        record_a_def record_b_def)
qed

text \<open>
  What the request of \<^verbatim>\<open>setDNSRecords\<close> carries for the record at position \<open>num\<close>, and
  that it carries nothing under an index beyond the last record. No parameter carries
  the host identifier.
\<close>

lemma setHosts_request:
  assumes "1 \<le> num" and "num \<le> length rs"
  shows "obj_get (requestParams cfg command (host_params d rs)) (indexed ''HostName'' num)
           = js_of (name (rs ! (num - 1)))
       \<and> obj_get (requestParams cfg command (host_params d rs)) (indexed ''RecordType'' num)
           = js_of (type (rs ! (num - 1)))
       \<and> obj_get (requestParams cfg command (host_params d rs)) (indexed ''Address'' num)
           = js_of (address (rs ! (num - 1)))
       \<and> obj_get (requestParams cfg command (host_params d rs)) (indexed ''MXPref'' num)
           = (if truthy (mxPref (rs ! (num - 1))) then js_of (mxPref (rs ! (num - 1))) else JUndefined)
       \<and> obj_get (requestParams cfg command (host_params d rs)) (indexed ''TTL'' num)
           = (if truthy (ttl (rs ! (num - 1))) then js_of (ttl (rs ! (num - 1))) else JUndefined)"
proof -
  have other: "obj_get (identity_params cfg command) (indexed key num) = JUndefined"
    if "key \<in> set param_keys" for key
    using that by (auto simp: identity_params_def obj_get_def param_keys_def indexed_digits)
  have look: "obj_get (requestParams cfg command (host_params d rs)) (indexed key num)
                = (case sent (rs ! (num - 1)) key of Some v \<Rightarrow> v | None \<Rightarrow> JUndefined)"
    if "key \<in> set param_keys" for key
    unfolding request_lookup using assms that
    by (simp add: map_of_host_params other split: option.splits)
  show ?thesis
    by (simp add: look param_keys_def sent_def)
qed

lemma setHosts_request_outside:
  assumes "\<not> (1 \<le> num \<and> num \<le> length rs)"
  shows "obj_get (requestParams cfg command (host_params d rs)) (indexed ''HostName'' num) = JUndefined
       \<and> obj_get (requestParams cfg command (host_params d rs)) (indexed ''RecordType'' num) = JUndefined
       \<and> obj_get (requestParams cfg command (host_params d rs)) (indexed ''Address'' num) = JUndefined
       \<and> obj_get (requestParams cfg command (host_params d rs)) (indexed ''MXPref'' num) = JUndefined
       \<and> obj_get (requestParams cfg command (host_params d rs)) (indexed ''TTL'' num) = JUndefined"
proof -
  have "obj_get (requestParams cfg command (host_params d rs)) (indexed key num) = JUndefined"
    if "key \<in> set param_keys" for key
  proof -
    have "obj_get (identity_params cfg command) (indexed key num) = JUndefined"
      using that by (auto simp: identity_params_def obj_get_def param_keys_def indexed_digits)
    then show ?thesis
      unfolding request_lookup using assms that
      by (auto simp: map_of_host_params)
  qed
  then show ?thesis
    by (simp add: param_keys_def)
qed

text \<open>The one request of \<^verbatim>\<open>setDNSRecords\<close>, and what it carries.\<close>

lemma setDNSRecords_sends:
  "setDNSRecords cfg tr s d rs
     = (case tr s \<lparr>req_url = apiUrl cfg,
                   req_params = requestParams cfg ''namecheap.domains.dns.setHosts'' (host_params d rs)\<rparr> of
          (out, s2) \<Rightarrow>
            (case try_block out of Inl e \<Rightarrow> Inl (catch_handler e) | Inr response \<Rightarrow> Inr (), s2))"
  by (simp add: setDNSRecords_def makeRequest_def after_def split: prod.splits sum.splits)

lemma setHosts_payload:
  fixes cfg d rs
  defines "P \<equiv> requestParams cfg ''namecheap.domains.dns.setHosts'' (host_params d rs)"
  shows "obj_get P ''Command'' = JString ''namecheap.domains.dns.setHosts''
       \<and> obj_get P ''SLD'' = sld_of d \<and> obj_get P ''TLD'' = tld_of d
       \<and> (\<forall>num. 1 \<le> num \<and> num \<le> length rs \<longrightarrow>
             obj_get P (indexed ''HostName'' num) = js_of (name (rs ! (num - 1)))
           \<and> obj_get P (indexed ''RecordType'' num) = js_of (type (rs ! (num - 1)))
           \<and> obj_get P (indexed ''Address'' num) = js_of (address (rs ! (num - 1)))
           \<and> obj_get P (indexed ''MXPref'' num)
               = (if truthy (mxPref (rs ! (num - 1))) then js_of (mxPref (rs ! (num - 1))) else JUndefined)
           \<and> obj_get P (indexed ''TTL'' num)
               = (if truthy (ttl (rs ! (num - 1))) then js_of (ttl (rs ! (num - 1))) else JUndefined))
       \<and> (\<forall>num. \<not> (1 \<le> num \<and> num \<le> length rs) \<longrightarrow>
             obj_get P (indexed ''HostName'' num) = JUndefined
           \<and> obj_get P (indexed ''RecordType'' num) = JUndefined
           \<and> obj_get P (indexed ''Address'' num) = JUndefined
           \<and> obj_get P (indexed ''MXPref'' num) = JUndefined
           \<and> obj_get P (indexed ''TTL'' num) = JUndefined)"
  unfolding P_def
  using setHosts_request [of _ rs cfg "''namecheap.domains.dns.setHosts''" d]
    setHosts_request_outside [of _ rs cfg "''namecheap.domains.dns.setHosts''" d]
  by (intro conjI allI impI request_command) blast+

text \<open>Evaluation of the sample inputs.\<close>

lemma digits_of_small: "n < 10 \<Longrightarrow> digits_of n = [digit_char n]"
  by (subst digits_of.simps) simp

lemma indexed_small:
  "indexed k (Suc 0) = k @ ''1''" "indexed k 2 = k @ ''2''" "indexed k 3 = k @ ''3''"
  by (simp_all add: indexed_def digits_of_small digit_char_def)

lemma replay_accepts:
  "(case replay ([Parsed set_hosts_doc], requests) req of
      (out, s2) \<Rightarrow>
        (case try_block out of Inl e \<Rightarrow> Inl (catch_handler e) | Inr response \<Rightarrow> Inr (), s2))
     = (Inr (), ([], requests @ [req]))"
  by (simp add: replay_def try_block_def check_response_def set_hosts_doc_def
      ok_doc_def get_attrs_def get_attr_def)

lemma check_taken:
  "checkDomain example_config replay ([Parsed taken_doc], []) ''example.com''
     = (Inr \<lparr>domain = Some ''example.com'', available = False, isPremium = False,
             premiumPrice = None\<rparr>, ([], [check_request]))"
  by (simp add: checkDomain_def makeRequest_def replay_def try_block_ok taken_doc_def
      get_attrs_def get_attr_def item_def get_child_def at0_def
      check_result_of_def truthy_def check_request_def)

lemma check_free:
  "checkDomain example_config replay ([Parsed free_doc, Parsed created_doc], []) ''example.com''
     = (Inr \<lparr>domain = Some ''example.com'', available = True, isPremium = False,
             premiumPrice = None\<rparr>, ([Parsed created_doc], [check_request]))"
  by (simp add: checkDomain_def makeRequest_def replay_def try_block_ok free_doc_def
      get_attrs_def get_attr_def item_def get_child_def at0_def
      check_result_of_def truthy_def check_request_def)

lemma check_refused:
  "checkDomain example_config replay ([], []) ''example.com''
     = (Inl (NamecheapError ''API request failed: connect ECONNREFUSED'' (Some ''REQUEST_FAILED'')
               (Some (Error_instance ''connect ECONNREFUSED''))), ([], [check_request]))"
  by (simp add: checkDomain_def makeRequest_def replay_def try_block_def catch_handler_def
      after_def check_request_def cause_message_def)

lemma create_accepted:
  "registerDomain example_config replay ([Parsed created_doc], requests) ''example.com'' 2 example_contact
     = (Inr (Some ''123'', Some ''456''), ([], requests @ [create_request]))"
  by (simp add: registerDomain_def makeRequest_def replay_def try_block_ok created_doc_def
      get_attrs_def get_attr_def item_def get_child_def at0_def example_args_def
      create_request_def contact_of_args_def example_contact_def)

lemma example_written:
  "map record_of_attrs
     (store_hosts example_own before
        [stored_attrs record_a, stored_attrs record_b, stored_attrs record_www])
     = [record_a\<lparr>hostId := Some ''1''\<rparr>, record_b\<lparr>hostId := Some ''2''\<rparr>,
        record_www\<lparr>hostId := Some ''3'', mxPref := Some ''10'', ttl := Some ''1800''\<rparr>]"
  "map record_of_attrs (store_hosts example_own before [stored_attrs record_a, stored_attrs record_b])
     = [record_a\<lparr>hostId := Some ''1''\<rparr>, record_b\<lparr>hostId := Some ''2''\<rparr>]"
  by (simp_all add: store_hosts_def stored_attrs_def host_keys_def sent_def List.map_filter_def
      truthy_def js_of_def attr_text_def own_attrs_def example_own_def record_of_attrs_def
      digits_of_small digit_char_def record_a_def record_b_def record_www_def)

section \<open>The gateway\<close>

text \<open>
  C10: in the request that \<^verbatim>\<open>makeRequest\<close> hands to the transport, the caller's
  parameters are merged after the identity parameters. Every key that the caller
  supplies carries the caller's value, also when the key is \<^verbatim>\<open>ApiUser\<close>, \<^verbatim>\<open>ApiKey\<close>,
  \<^verbatim>\<open>UserName\<close>, \<^verbatim>\<open>ClientIp\<close> or \<^verbatim>\<open>Command\<close>; each of these five keys that the caller
  leaves out carries the configured value.
\<close>

theorem C10:
  assumes "distinct (map fst ps)"
  shows "snd (makeRequest cfg tr s command ps)
           = snd (tr s \<lparr>req_url = apiUrl cfg, req_params = requestParams cfg command ps\<rparr>)
       \<and> (\<forall>k v. map_of ps k = Some v \<longrightarrow> obj_get (requestParams cfg command ps) k = v)
       \<and> (map_of ps ''ApiUser'' = None \<longrightarrow>
            obj_get (requestParams cfg command ps) ''ApiUser'' = JString (apiUser cfg))
       \<and> (map_of ps ''ApiKey'' = None \<longrightarrow>
            obj_get (requestParams cfg command ps) ''ApiKey'' = JString (apiKey cfg))
       \<and> (map_of ps ''UserName'' = None \<longrightarrow>
            obj_get (requestParams cfg command ps) ''UserName'' = JString (apiUser cfg))
       \<and> (map_of ps ''ClientIp'' = None \<longrightarrow>
            obj_get (requestParams cfg command ps) ''ClientIp'' = JString (clientIp cfg))
       \<and> (map_of ps ''Command'' = None \<longrightarrow>
            obj_get (requestParams cfg command ps) ''Command'' = JString command)"
proof -
  have "snd (makeRequest cfg tr s command ps)
           = snd (tr s \<lparr>req_url = apiUrl cfg, req_params = requestParams cfg command ps\<rparr>)"
    by (simp add: makeRequest_def split: prod.splits sum.splits)
  moreover have "\<forall>k v. map_of ps k = Some v \<longrightarrow> obj_get (requestParams cfg command ps) k = v"
    using assms by (simp add: requestParams_def obj_get_spread)
  moreover have "\<And>k. map_of ps k = None \<Longrightarrow>
      obj_get (requestParams cfg command ps) k = obj_get (identity_params cfg command) k"
    using assms by (simp add: requestParams_def obj_get_spread)
  ultimately show ?thesis
    by (simp add: obj_get_def identity_params_def)
qed


theorem C10_witness:
  "distinct (map fst [(''ApiUser'', JString ''mallory''), (''DomainList'', JString ''a.com'')])
   \<and> obj_get (requestParams example_config ''namecheap.domains.check''
               [(''ApiUser'', JString ''mallory''), (''DomainList'', JString ''a.com'')]) ''ApiUser''
       = JString ''mallory''
   \<and> obj_get (requestParams example_config ''namecheap.domains.check''
               [(''ApiUser'', JString ''mallory''), (''DomainList'', JString ''a.com'')]) ''ApiKey''
       = JString ''k3y''
   \<and> obj_get (requestParams example_config ''namecheap.domains.check''
               [(''ApiUser'', JString ''mallory''), (''DomainList'', JString ''a.com'')]) ''Command''
       = JString ''namecheap.domains.check''"
  using C10 [where ps = "[(''ApiUser'', JString ''mallory''), (''DomainList'', JString ''a.com'')]"
      and cfg = example_config and command = "''namecheap.domains.check''"
      and tr = replay and s = "([], [])"]
  by (simp add: example_config_def)

text \<open>
  C6: when the reply has status \<^verbatim>\<open>ERROR\<close> and its first \<^verbatim>\<open>Errors\<close> entry has the number
  \<open>num\<close> and the text \<open>msg\<close>, the gateway fails with a \<^verbatim>\<open>NamecheapError\<close> whose code is
  \<open>num\<close> and whose message is \<open>msg\<close>, and every operation of the client fails with that
  same error.
\<close>

theorem C6:
  assumes reply: "\<forall>req. fst (tr s req) = Parsed (Some (''ApiResponse'', XElem (Some attrs) t kids))"
    and status: "map_of attrs ''Status'' = Some ''ERROR''"
    and errors: "map_of kids ''Errors'' = Some (XElem ea et ekids # rest)"
    and entry: "map_of ekids ''Error'' = Some (XElem (Some eattrs) (Some msg) ks # others)"
    and number: "map_of eattrs ''Number'' = Some num"
  shows "fst (makeRequest cfg tr s command ps) = Inl (NamecheapError msg (Some num) None)
       \<and> fst (checkDomain cfg tr s d) = Inl (NamecheapError msg (Some num) None)
       \<and> fst (checkDomains cfg tr s ds) = Inl (NamecheapError msg (Some num) None)
       \<and> fst (listDomains parseInt cfg tr s page pageSize) = Inl (NamecheapError msg (Some num) None)
       \<and> fst (getDomainInfo cfg tr s d) = Inl (NamecheapError msg (Some num) None)
       \<and> fst (getDNSRecords cfg tr s d) = Inl (NamecheapError msg (Some num) None)
       \<and> fst (setDNSRecords cfg tr s d records) = Inl (NamecheapError msg (Some num) None)
       \<and> fst (addDNSRecord cfg tr s d r) = Inl (NamecheapError msg (Some num) None)
       \<and> fst (updateDNSRecord cfg tr s d criteria updates) = Inl (NamecheapError msg (Some num) None)
       \<and> fst (deleteDNSRecord cfg tr s d criteria) = Inl (NamecheapError msg (Some num) None)
       \<and> fst (registerDomain cfg tr s d years c) = Inl (NamecheapError msg (Some num) None)"
proof -
  let ?e = "NamecheapError msg (Some num) None"
  have gateway: "fst (makeRequest cfg tr s command' ps') = Inl ?e" for command' ps'
  proof -
    obtain out s' where call:
      "tr s \<lparr>req_url = apiUrl cfg, req_params = requestParams cfg command' ps'\<rparr> = (out, s')"
      by (cases "tr s \<lparr>req_url = apiUrl cfg, req_params = requestParams cfg command' ps'\<rparr>")
    with reply have out: "out = Parsed (Some (''ApiResponse'', XElem (Some attrs) t kids))"
      by (metis fst_conv)
    have "try_block out = Inl ?e"
      unfolding out try_block_def using reported_error [OF status errors entry number] by simp
    with call show ?thesis
      by (simp add: makeRequest_def catch_handler_def)
  qed
  have read: "fst (getDNSRecords cfg tr s d) = Inl ?e"
    unfolding getDNSRecords_def by (rule fst_after_Inl) (rule gateway)
  have "fst (checkDomain cfg tr s d) = Inl ?e"
    unfolding checkDomain_def by (rule fst_after_Inl) (rule gateway)
  moreover have "fst (checkDomains cfg tr s ds) = Inl ?e"
    unfolding checkDomains_def by (rule fst_after_Inl) (rule gateway)
  moreover have "fst (listDomains parseInt cfg tr s page pageSize) = Inl ?e"
    unfolding listDomains_def by (rule fst_after_Inl) (rule gateway)
  moreover have "fst (getDomainInfo cfg tr s d) = Inl ?e"
    unfolding getDomainInfo_def by (rule fst_after_Inl) (rule gateway)
  moreover have "fst (setDNSRecords cfg tr s d records) = Inl ?e"
    unfolding setDNSRecords_def by (rule fst_after_Inl) (rule gateway)
  moreover have "fst (addDNSRecord cfg tr s d r) = Inl ?e"
    using read by (cases "getDNSRecords cfg tr s d") (simp add: addDNSRecord_def)
  moreover have "fst (updateDNSRecord cfg tr s d criteria updates) = Inl ?e"
    using read by (cases "getDNSRecords cfg tr s d") (simp add: updateDNSRecord_def)
  moreover have "fst (deleteDNSRecord cfg tr s d criteria) = Inl ?e"
    using read by (cases "getDNSRecords cfg tr s d") (simp add: deleteDNSRecord_def)
  moreover have "fst (registerDomain cfg tr s d years c) = Inl ?e"
    unfolding registerDomain_def by (rule fst_after_Inl) (rule gateway)
  ultimately show ?thesis
    using gateway read by simp
qed

theorem C6_witness:
  "fst (registerDomain example_config replay
          ([Parsed (error_doc ''2019166'' ''Domain name already exists'')], [])
          ''example.com'' 1 example_contact)
     = Inl (NamecheapError ''Domain name already exists'' (Some ''2019166'') None)"
  using C6 [where tr = replay
      and s = "([Parsed (error_doc ''2019166'' ''Domain name already exists'')], [])"
      and attrs = "[(''Status'', ''ERROR'')]" and t = None
      and kids = "[(''Errors'', [XElem None None
                 [(''Error'', [XElem (Some [(''Number'', ''2019166'')])
                                (Some ''Domain name already exists'') []])]])]"
      and ea = None and et = None
      and ekids = "[(''Error'', [XElem (Some [(''Number'', ''2019166'')])
                                (Some ''Domain name already exists'') []])]"
      and rest = "[]" and eattrs = "[(''Number'', ''2019166'')]"
      and msg = "''Domain name already exists''" and ks = "[]" and others = "[]"
      and num = "''2019166''" and cfg = example_config and d = "''example.com''"
      and years = 1 and c = example_contact and parseInt = example_parseInt]
  by (simp add: replay_def error_doc_def)

text \<open>
  C7: when the post or the parse throws, or the parsed body does not have the expected
  shape, \<^verbatim>\<open>makeRequest\<close> fails with a \<^verbatim>\<open>NamecheapError\<close> with the code \<^verbatim>\<open>REQUEST_FAILED\<close>
  that carries the thrown value as its details. An error that the remote system reports
  never carries details, so the two kinds can be told apart.
\<close>

theorem C7:
  assumes call: "tr s \<lparr>req_url = apiUrl cfg, req_params = requestParams cfg command ps\<rparr> = (out, s')"
  shows "(\<forall>c. out = Thrown c \<longrightarrow>
            makeRequest cfg tr s command ps
              = (Inl (NamecheapError (''API request failed: '' @ cause_message c)
                     (Some ''REQUEST_FAILED'') (Some c)), s'))
       \<and> (\<forall>c. try_block out = Inl (Uncaught c) \<longrightarrow>
            makeRequest cfg tr s command ps
              = (Inl (NamecheapError (''API request failed: '' @ cause_message c)
                     (Some ''REQUEST_FAILED'') (Some c)), s'))
       \<and> (\<forall>m code details. try_block out = Inl (NamecheapError m code details) \<longrightarrow>
            details = None \<and> makeRequest cfg tr s command ps = (Inl (NamecheapError m code None), s'))"
proof (intro conjI allI impI)
  fix c assume "out = Thrown c"
  then have "try_block out = Inl (Uncaught c)" by (simp add: try_block_def)
  with call
  show "makeRequest cfg tr s command ps
          = (Inl (NamecheapError (''API request failed: '' @ cause_message c)
                 (Some ''REQUEST_FAILED'') (Some c)), s')"
    by (simp add: makeRequest_def catch_handler_def)
next
  fix c assume "try_block out = Inl (Uncaught c)"
  with call
  show "makeRequest cfg tr s command ps
          = (Inl (NamecheapError (''API request failed: '' @ cause_message c)
                 (Some ''REQUEST_FAILED'') (Some c)), s')"
    by (simp add: makeRequest_def catch_handler_def)
next
  fix m code details assume t: "try_block out = Inl (NamecheapError m code details)"
  show "details = None"
    using t by (rule try_block_details)
next
  fix m code details assume t: "try_block out = Inl (NamecheapError m code details)"
  then have "details = None"
    by (rule try_block_details)
  with call t
  show "makeRequest cfg tr s command ps = (Inl (NamecheapError m code None), s')"
    by (simp add: makeRequest_def catch_handler_def)
qed


theorem C7_witness:
  "makeRequest example_config replay ([], []) ''namecheap.domains.getList'' []
     = (Inl (NamecheapError ''API request failed: connect ECONNREFUSED'' (Some ''REQUEST_FAILED'')
              (Some (Error_instance ''connect ECONNREFUSED''))),
        ([], [\<lparr>req_url = apiUrl example_config,
                req_params = requestParams example_config ''namecheap.domains.getList'' []\<rparr>]))
   \<and> makeRequest example_config replay ([Parsed (error_doc ''500000'' ''Too many requests'')], [])
       ''namecheap.domains.getList'' []
     = (Inl (NamecheapError ''Too many requests'' (Some ''500000'') None),
        ([], [\<lparr>req_url = apiUrl example_config,
                req_params = requestParams example_config ''namecheap.domains.getList'' []\<rparr>]))"
  using C7 [where tr = replay and s = "([], [])" and cfg = example_config
      and command = "''namecheap.domains.getList''" and ps = "[]"
      and out = "Thrown (Error_instance ''connect ECONNREFUSED'')"
      and s' = "([], [\<lparr>req_url = apiUrl example_config,
                req_params = requestParams example_config ''namecheap.domains.getList'' []\<rparr>])"]
    C7 [where tr = replay and s = "([Parsed (error_doc ''500000'' ''Too many requests'')], [])"
      and cfg = example_config
      and command = "''namecheap.domains.getList''" and ps = "[]"
      and out = "Parsed (error_doc ''500000'' ''Too many requests'')"
      and s' = "([], [\<lparr>req_url = apiUrl example_config,
                req_params = requestParams example_config ''namecheap.domains.getList'' []\<rparr>])"]
  by (simp add: replay_def cause_message_def try_block_def error_doc_def check_response_def
      get_attrs_def get_attr_def item_def get_child_def at0_def get_text_def)

section \<open>Empty results\<close>

text \<open>
  C9: when the reply to \<^verbatim>\<open>getHosts\<close> is not an error and its result element has no
  \<^verbatim>\<open>host\<close> child, \<^verbatim>\<open>getDNSRecords\<close> returns the empty list. When the reply to
  \<^verbatim>\<open>getList\<close> has no \<^verbatim>\<open>Domain\<close> child, \<^verbatim>\<open>listDomains\<close> returns no domains, and
  \<open>totalItems\<close> is still \<^verbatim>\<open>parseInt\<close> of the \<^verbatim>\<open>TotalItems\<close> attribute of the
  separate \<^verbatim>\<open>Paging\<close> element.
\<close>

theorem C9:
  "(tr s \<lparr>req_url = apiUrl cfg,
          req_params = requestParams cfg ''namecheap.domains.dns.getHosts''
                         [(''SLD'', sld_of d), (''TLD'', tld_of d)]\<rparr>
      = (Parsed (Some (''ApiResponse'', XElem (Some attrs) t kids)), s')
    \<and> map_of attrs ''Status'' \<noteq> Some ''ERROR''
    \<and> map_of kids ''CommandResponse'' = Some (cr # crs)
    \<and> get_child (Some cr) ''DomainDNSGetHostsResult'' = Inr (Some (res # ress))
    \<and> get_child (Some res) ''host'' = Inr None
    \<longrightarrow> getDNSRecords cfg tr s d = (Inr [], s'))
 \<and> (tr s \<lparr>req_url = apiUrl cfg,
          req_params = requestParams cfg ''namecheap.domains.getList''
                         [(''Page'', JNumber page), (''PageSize'', JNumber pageSize)]\<rparr>
      = (Parsed (Some (''ApiResponse'', XElem (Some attrs) t kids)), s')
    \<and> map_of attrs ''Status'' \<noteq> Some ''ERROR''
    \<and> map_of kids ''Paging'' = Some (pg # pgs)
    \<and> get_attrs (Some pg) = Inr (Some paging)
    \<and> map_of kids ''CommandResponse'' = Some (cr # crs)
    \<and> get_child (Some cr) ''DomainGetListResult'' = Inr (Some (res # ress))
    \<and> get_child (Some res) ''Domain'' = Inr None
    \<longrightarrow> listDomains parseInt cfg tr s page pageSize
          = (Inr ([], parseInt (map_of paging ''TotalItems'')), s'))"
proof (intro conjI impI)
  assume a: "tr s \<lparr>req_url = apiUrl cfg,
          req_params = requestParams cfg ''namecheap.domains.dns.getHosts''
                         [(''SLD'', sld_of d), (''TLD'', tld_of d)]\<rparr>
      = (Parsed (Some (''ApiResponse'', XElem (Some attrs) t kids)), s')
    \<and> map_of attrs ''Status'' \<noteq> Some ''ERROR''
    \<and> map_of kids ''CommandResponse'' = Some (cr # crs)
    \<and> get_child (Some cr) ''DomainDNSGetHostsResult'' = Inr (Some (res # ress))
    \<and> get_child (Some res) ''host'' = Inr None"
  then have "makeRequest cfg tr s ''namecheap.domains.dns.getHosts''
               [(''SLD'', sld_of d), (''TLD'', tld_of d)]
             = (Inr (Some (XElem (Some attrs) t kids)), s')"
    by (intro gateway_ok) simp_all
  with a show "getDNSRecords cfg tr s d = (Inr [], s')"
    by (simp add: getDNSRecords_def item_def get_child_def at0_def or_empty_def)
next
  assume a: "tr s \<lparr>req_url = apiUrl cfg,
          req_params = requestParams cfg ''namecheap.domains.getList''
                         [(''Page'', JNumber page), (''PageSize'', JNumber pageSize)]\<rparr>
      = (Parsed (Some (''ApiResponse'', XElem (Some attrs) t kids)), s')
    \<and> map_of attrs ''Status'' \<noteq> Some ''ERROR''
    \<and> map_of kids ''Paging'' = Some (pg # pgs)
    \<and> get_attrs (Some pg) = Inr (Some paging)
    \<and> map_of kids ''CommandResponse'' = Some (cr # crs)
    \<and> get_child (Some cr) ''DomainGetListResult'' = Inr (Some (res # ress))
    \<and> get_child (Some res) ''Domain'' = Inr None"
  then have "makeRequest cfg tr s ''namecheap.domains.getList''
               [(''Page'', JNumber page), (''PageSize'', JNumber pageSize)]
             = (Inr (Some (XElem (Some attrs) t kids)), s')"
    by (intro gateway_ok) simp_all
  with a show "listDomains parseInt cfg tr s page pageSize
          = (Inr ([], parseInt (map_of paging ''TotalItems'')), s')"
    by (simp add: listDomains_def item_def get_child_def at0_def or_empty_def get_attr_def)
qed

theorem C9_witness:
  "getDNSRecords example_config replay ([Parsed (get_hosts_doc [])], []) ''example.com''
     = (Inr [], ([], [\<lparr>req_url = apiUrl example_config,
                       req_params = requestParams example_config ''namecheap.domains.dns.getHosts''
                         [(''SLD'', sld_of ''example.com''), (''TLD'', tld_of ''example.com'')]\<rparr>]))
   \<and> listDomains example_parseInt example_config replay ([Parsed empty_list_doc], []) 5 20
     = (Inr ([], Some 37), ([], [\<lparr>req_url = apiUrl example_config,
                       req_params = requestParams example_config ''namecheap.domains.getList''
                         [(''Page'', JNumber 5), (''PageSize'', JNumber 20)]\<rparr>]))"
  using C9 [where tr = replay and s = "([Parsed (get_hosts_doc [])], [])" and cfg = example_config
      and parseInt = example_parseInt
      and d = "''example.com''" and attrs = "[(''Status'', ''OK'')]" and t = None
      and kids = "[(''CommandResponse'', [XElem (Some [(''Type'', ''namecheap.domains.dns.getHosts'')]) None
                    [(''DomainDNSGetHostsResult'', [XElem (Some [(''IsUsingOurDNS'', ''true'')]) None []])]])]"
      and cr = "XElem (Some [(''Type'', ''namecheap.domains.dns.getHosts'')]) None
                    [(''DomainDNSGetHostsResult'', [XElem (Some [(''IsUsingOurDNS'', ''true'')]) None []])]"
      and crs = "[]" and res = "XElem (Some [(''IsUsingOurDNS'', ''true'')]) None []" and ress = "[]"
      and s' = "([], [\<lparr>req_url = apiUrl example_config,
                       req_params = requestParams example_config ''namecheap.domains.dns.getHosts''
                         [(''SLD'', sld_of ''example.com''), (''TLD'', tld_of ''example.com'')]\<rparr>])"]
    C9 [where tr = replay and s = "([Parsed empty_list_doc], [])" and cfg = example_config
      and parseInt = example_parseInt
      and page = 5 and pageSize = 20 and attrs = "[(''Status'', ''OK'')]" and t = None
      and kids = "[(''CommandResponse'',
               [XElem (Some [(''Type'', ''namecheap.domains.getList'')]) None
                  [(''DomainGetListResult'', [XText []])]]),
              (''Paging'', [XElem (Some [(''TotalItems'', ''37''), (''CurrentPage'', ''5'')]) None []])]"
      and cr = "XElem (Some [(''Type'', ''namecheap.domains.getList'')]) None
                  [(''DomainGetListResult'', [XText []])]"
      and crs = "[]" and res = "XText []" and ress = "[]"
      and pg = "XElem (Some [(''TotalItems'', ''37''), (''CurrentPage'', ''5'')]) None []" and pgs = "[]"
      and paging = "[(''TotalItems'', ''37''), (''CurrentPage'', ''5'')]"
      and s' = "([], [\<lparr>req_url = apiUrl example_config,
                       req_params = requestParams example_config ''namecheap.domains.getList''
                         [(''Page'', JNumber 5), (''PageSize'', JNumber 20)]\<rparr>])"]
  by (simp add: replay_def get_hosts_doc_def ok_doc_def empty_list_doc_def get_child_def
      get_attrs_def example_parseInt_def)

section \<open>Registration and the availability check\<close>

text \<open>
  C8 (as amended): the client's \<^verbatim>\<open>registerDomain\<close> makes no availability check. Its one
  request is the \<^verbatim>\<open>namecheap.domains.create\<close> call, sent at once; a failure of that call
  is raised to the caller; each of the nine contact fields of the four roles
  (registrant, admin, tech, billing) carries the caller's single contact record.
  The check is made by the handler of the \<^verbatim>\<open>register-domain\<close> tool: its first request
  is the availability check. When the check fails, the handler rethrows the failure and
  sends nothing else. When the check reports the domain as not available, the handler
  returns the ``not available'' text as a normal result and sends nothing else. When
  the domain is available, the handler calls \<^verbatim>\<open>registerDomain\<close> with the contact built
  from its arguments: the next and last request is the create call, and the result is
  the text with the identifiers, or the rethrown failure.
\<close>

theorem C8:
  "snd (registerDomain cfg tr s d years c)
     = snd (tr s \<lparr>req_url = apiUrl cfg,
                   req_params = requestParams cfg ''namecheap.domains.create'' (register_params d years c)\<rparr>)
   \<and> (\<forall>e. fst (makeRequest cfg tr s ''namecheap.domains.create'' (register_params d years c)) = Inl e
          \<longrightarrow> fst (registerDomain cfg tr s d years c) = Inl e)
   \<and> (\<forall>role \<in> set [''Registrant'', ''Admin'', ''Tech'', ''AuxBilling''].
          obj_get (requestParams cfg ''namecheap.domains.create'' (register_params d years c))
                  (role @ ''FirstName'') = JString (firstName c)
        \<and> obj_get (requestParams cfg ''namecheap.domains.create'' (register_params d years c))
                  (role @ ''LastName'') = JString (lastName c)
        \<and> obj_get (requestParams cfg ''namecheap.domains.create'' (register_params d years c))
                  (role @ ''Address1'') = JString (address1 c)
        \<and> obj_get (requestParams cfg ''namecheap.domains.create'' (register_params d years c))
                  (role @ ''City'') = JString (city c)
        \<and> obj_get (requestParams cfg ''namecheap.domains.create'' (register_params d years c))
                  (role @ ''StateProvince'') = JString (stateProvince c)
        \<and> obj_get (requestParams cfg ''namecheap.domains.create'' (register_params d years c))
                  (role @ ''PostalCode'') = JString (postalCode c)
        \<and> obj_get (requestParams cfg ''namecheap.domains.create'' (register_params d years c))
                  (role @ ''Country'') = JString (country c)
        \<and> obj_get (requestParams cfg ''namecheap.domains.create'' (register_params d years c))
                  (role @ ''Phone'') = JString (phone c)
        \<and> obj_get (requestParams cfg ''namecheap.domains.create'' (register_params d years c))
                  (role @ ''EmailAddress'') = JString (emailAddress c))
   \<and> snd (checkDomain cfg tr s (a_domain args))
       = snd (tr s \<lparr>req_url = apiUrl cfg,
                     req_params = requestParams cfg ''namecheap.domains.check''
                                    [(''DomainList'', JString (a_domain args))]\<rparr>)
   \<and> (\<forall>e. fst (checkDomain cfg tr s (a_domain args)) = Inl e \<longrightarrow>
          registerDomainTool_execute render cfg tr s args
            = (Inl (register_failed e), snd (checkDomain cfg tr s (a_domain args))))
   \<and> (\<forall>availability.
          fst (checkDomain cfg tr s (a_domain args)) = Inr availability \<and> \<not> available availability \<longrightarrow>
          registerDomainTool_execute render cfg tr s args
            = (Inr (not_available_text (a_domain args)), snd (checkDomain cfg tr s (a_domain args))))
   \<and> (\<forall>availability.
          fst (checkDomain cfg tr s (a_domain args)) = Inr availability \<and> available availability \<longrightarrow>
          registerDomainTool_execute render cfg tr s args
            = (case registerDomain cfg tr (snd (checkDomain cfg tr s (a_domain args)))
                      (a_domain args) (a_years args)
                      \<lparr>firstName = a_firstName args, lastName = a_lastName args,
                       address1 = a_address args, city = a_city args,
                       stateProvince = a_stateProvince args, postalCode = a_postalCode args,
                       country = a_country args, phone = a_phone args,
                       emailAddress = a_email args\<rparr> of
                 (Inl e, s2) \<Rightarrow> (Inl (register_failed e), s2)
               | (Inr result, s2) \<Rightarrow>
                   (Inr (registered_text render (a_domain args) (a_years args) result), s2))
        \<and> snd (registerDomainTool_execute render cfg tr s args)
            = snd (tr (snd (checkDomain cfg tr s (a_domain args)))
                     \<lparr>req_url = apiUrl cfg,
                      req_params = requestParams cfg ''namecheap.domains.create''
                        (register_params (a_domain args) (a_years args)
                           \<lparr>firstName = a_firstName args, lastName = a_lastName args,
                            address1 = a_address args, city = a_city args,
                            stateProvince = a_stateProvince args, postalCode = a_postalCode args,
                            country = a_country args, phone = a_phone args,
                            emailAddress = a_email args\<rparr>)\<rparr>))"
proof (intro conjI allI impI ballI)
  show "snd (registerDomain cfg tr s d years c)
     = snd (tr s \<lparr>req_url = apiUrl cfg,
                   req_params = requestParams cfg ''namecheap.domains.create'' (register_params d years c)\<rparr>)"
    by (simp add: registerDomain_def snd_makeRequest)
next
  fix e
  assume "fst (makeRequest cfg tr s ''namecheap.domains.create'' (register_params d years c)) = Inl e"
  then show "fst (registerDomain cfg tr s d years c) = Inl e"
    unfolding registerDomain_def by (rule fst_after_Inl)
next
  show "snd (checkDomain cfg tr s (a_domain args))
       = snd (tr s \<lparr>req_url = apiUrl cfg,
                     req_params = requestParams cfg ''namecheap.domains.check''
                                    [(''DomainList'', JString (a_domain args))]\<rparr>)"
    by (simp add: checkDomain_def snd_makeRequest)
next
  fix e
  assume "fst (checkDomain cfg tr s (a_domain args)) = Inl e"
  then show "registerDomainTool_execute render cfg tr s args
            = (Inl (register_failed e), snd (checkDomain cfg tr s (a_domain args)))"
    by (cases "checkDomain cfg tr s (a_domain args)") (simp add: registerDomainTool_execute_def)
next
  fix availability
  assume "fst (checkDomain cfg tr s (a_domain args)) = Inr availability \<and> \<not> available availability"
  then show "registerDomainTool_execute render cfg tr s args
            = (Inr (not_available_text (a_domain args)), snd (checkDomain cfg tr s (a_domain args)))"
    by (cases "checkDomain cfg tr s (a_domain args)") (simp add: registerDomainTool_execute_def)
next
  fix availability
  assume "fst (checkDomain cfg tr s (a_domain args)) = Inr availability \<and> available availability"
  then show "registerDomainTool_execute render cfg tr s args
            = (case registerDomain cfg tr (snd (checkDomain cfg tr s (a_domain args)))
                      (a_domain args) (a_years args)
                      \<lparr>firstName = a_firstName args, lastName = a_lastName args,
                       address1 = a_address args, city = a_city args,
                       stateProvince = a_stateProvince args, postalCode = a_postalCode args,
                       country = a_country args, phone = a_phone args,
                       emailAddress = a_email args\<rparr> of
                 (Inl e, s2) \<Rightarrow> (Inl (register_failed e), s2)
               | (Inr result, s2) \<Rightarrow>
                   (Inr (registered_text render (a_domain args) (a_years args) result), s2))"
    by (cases "checkDomain cfg tr s (a_domain args)")
      (simp add: registerDomainTool_execute_def contact_of_args_def)
next
  fix availability
  assume "fst (checkDomain cfg tr s (a_domain args)) = Inr availability \<and> available availability"
  then have "snd (registerDomainTool_execute render cfg tr s args)
               = snd (registerDomain cfg tr (snd (checkDomain cfg tr s (a_domain args)))
                        (a_domain args) (a_years args) (contact_of_args args))"
    by (cases "checkDomain cfg tr s (a_domain args)")
      (simp add: registerDomainTool_execute_def split: prod.splits sum.splits)
  then show "snd (registerDomainTool_execute render cfg tr s args)
            = snd (tr (snd (checkDomain cfg tr s (a_domain args)))
                     \<lparr>req_url = apiUrl cfg,
                      req_params = requestParams cfg ''namecheap.domains.create''
                        (register_params (a_domain args) (a_years args)
                           \<lparr>firstName = a_firstName args, lastName = a_lastName args,
                            address1 = a_address args, city = a_city args,
                            stateProvince = a_stateProvince args, postalCode = a_postalCode args,
                            country = a_country args, phone = a_phone args,
                            emailAddress = a_email args\<rparr>)\<rparr>)"
    by (simp add: registerDomain_def snd_makeRequest contact_of_args_def)
qed (use register_params_roles [where c = c] in simp_all)

theorem C8_witness:
  "snd (registerDomain example_config replay ([Parsed created_doc], []) ''example.com'' 2 example_contact)
     = ([], [create_request])
   \<and> fst (registerDomain example_config replay ([], []) ''example.com'' 2 example_contact)
     = Inl (NamecheapError ''API request failed: connect ECONNREFUSED'' (Some ''REQUEST_FAILED'')
              (Some (Error_instance ''connect ECONNREFUSED'')))
   \<and> registerDomainTool_execute example_render example_config replay ([], []) example_args
     = (Inl (Uncaught (Error_instance
               ''Failed to register domain: API request failed: connect ECONNREFUSED'')),
        ([], [check_request]))
   \<and> registerDomainTool_execute example_render example_config replay ([Parsed taken_doc], [])
       example_args
     = (Inr ''Domain example.com is not available for registration.'', ([], [check_request]))
   \<and> registerDomainTool_execute example_render example_config replay
       ([Parsed free_doc, Parsed created_doc], []) example_args
     = (Inr (''Successfully registered example.com for 2 year(s)!'' @ [CHR 0x0A, CHR 0x0A]
             @ ''Domain ID: 123'' @ [CHR 0x0A] @ ''Order ID: 456''),
        ([], [check_request, create_request]))
   \<and> obj_get (req_params create_request) ''RegistrantFirstName'' = JString ''Ada''
   \<and> obj_get (req_params create_request) ''AdminFirstName'' = JString ''Ada''
   \<and> obj_get (req_params create_request) ''TechFirstName'' = JString ''Ada''
   \<and> obj_get (req_params create_request) ''AuxBillingFirstName'' = JString ''Ada''
   \<and> obj_get (req_params create_request) ''RegistrantEmailAddress'' = JString ''ada@example.com''
   \<and> obj_get (req_params create_request) ''AdminEmailAddress'' = JString ''ada@example.com''
   \<and> obj_get (req_params create_request) ''TechEmailAddress'' = JString ''ada@example.com''
   \<and> obj_get (req_params create_request) ''AuxBillingEmailAddress'' = JString ''ada@example.com''"
proof -
  have contact: "contact_of_args example_args = example_contact"
    by (simp add: contact_of_args_def example_args_def example_contact_def)
  have args: "a_domain example_args = ''example.com''" "a_years example_args = 2"
    "\<lparr>firstName = a_firstName example_args, lastName = a_lastName example_args,
      address1 = a_address example_args, city = a_city example_args,
      stateProvince = a_stateProvince example_args, postalCode = a_postalCode example_args,
      country = a_country example_args, phone = a_phone example_args,
      emailAddress = a_email example_args\<rparr> = example_contact"
    by (simp_all add: example_args_def example_contact_def)
  note facade = C8 [where cfg = example_config and tr = replay and s = "([Parsed created_doc], [])"
      and d = "''example.com''" and years = 2 and c = example_contact and args = example_args
      and render = example_render]
  note refused = C8 [where cfg = example_config and tr = replay and s = "([], [])"
      and d = "''example.com''" and years = 2 and c = example_contact and args = example_args
      and render = example_render]
  note taken = C8 [where cfg = example_config and tr = replay and s = "([Parsed taken_doc], [])"
      and d = "''example.com''" and years = 2 and c = example_contact and args = example_args
      and render = example_render]
  note free = C8 [where cfg = example_config and tr = replay
      and s = "([Parsed free_doc, Parsed created_doc], [])"
      and d = "''example.com''" and years = 2 and c = example_contact and args = example_args
      and render = example_render]
  have one: "snd (registerDomain example_config replay ([Parsed created_doc], []) ''example.com'' 2
                    example_contact) = ([], [create_request])"
    using facade [THEN conjunct1]
    by (simp add: replay_def create_request_def contact)
  have fails: "fst (registerDomain example_config replay ([], []) ''example.com'' 2 example_contact)
     = Inl (NamecheapError ''API request failed: connect ECONNREFUSED'' (Some ''REQUEST_FAILED'')
              (Some (Error_instance ''connect ECONNREFUSED'')))"
    using refused [THEN conjunct2, THEN conjunct1]
    by (simp add: makeRequest_def replay_def try_block_def catch_handler_def cause_message_def)
  have two: "registerDomainTool_execute example_render example_config replay ([], []) example_args
     = (Inl (Uncaught (Error_instance
               ''Failed to register domain: API request failed: connect ECONNREFUSED'')),
        ([], [check_request]))"
    using refused [THEN conjunct2, THEN conjunct2, THEN conjunct2, THEN conjunct2, THEN conjunct1]
    by (simp add: args check_refused register_failed_def exn_message_def)
  have three: "registerDomainTool_execute example_render example_config replay ([Parsed taken_doc], [])
       example_args
     = (Inr ''Domain example.com is not available for registration.'', ([], [check_request]))"
    using taken [THEN conjunct2, THEN conjunct2, THEN conjunct2, THEN conjunct2, THEN conjunct2,
        THEN conjunct1]
    by (simp add: args check_taken not_available_text_def)
  have rendered: "registered_text example_render ''example.com'' 2 (Some ''123'', Some ''456'')
     = ''Successfully registered example.com for 2 year(s)!'' @ [CHR 0x0A, CHR 0x0A]
             @ ''Domain ID: 123'' @ [CHR 0x0A] @ ''Order ID: 456''"
    by (simp add: registered_text_def example_render_def digits_of_small digit_char_def
        template_text_def)
  have four: "registerDomainTool_execute example_render example_config replay
       ([Parsed free_doc, Parsed created_doc], []) example_args
     = (Inr (''Successfully registered example.com for 2 year(s)!'' @ [CHR 0x0A, CHR 0x0A]
             @ ''Domain ID: 123'' @ [CHR 0x0A] @ ''Order ID: 456''),
        ([], [check_request, create_request]))"
    using free [THEN conjunct2, THEN conjunct2, THEN conjunct2, THEN conjunct2, THEN conjunct2,
        THEN conjunct2]
    by (simp add: args check_free create_accepted rendered)
  have roles: "obj_get (req_params create_request) ''RegistrantFirstName'' = JString ''Ada''
   \<and> obj_get (req_params create_request) ''AdminFirstName'' = JString ''Ada''
   \<and> obj_get (req_params create_request) ''TechFirstName'' = JString ''Ada''
   \<and> obj_get (req_params create_request) ''AuxBillingFirstName'' = JString ''Ada''
   \<and> obj_get (req_params create_request) ''RegistrantEmailAddress'' = JString ''ada@example.com''
   \<and> obj_get (req_params create_request) ''AdminEmailAddress'' = JString ''ada@example.com''
   \<and> obj_get (req_params create_request) ''TechEmailAddress'' = JString ''ada@example.com''
   \<and> obj_get (req_params create_request) ''AuxBillingEmailAddress'' = JString ''ada@example.com''"
    using facade [THEN conjunct2, THEN conjunct2, THEN conjunct1]
    by (simp add: create_request_def contact example_contact_def)
  from one fails two three four roles show ?thesis
    by simp
qed

text \<open>
  The claim as stated fails for \<^verbatim>\<open>registerDomain\<close>: for a domain that is taken, the
  only request it sends is the create call, and the registrar's refusal is raised.
\<close>

theorem C8_counterexample:
  "registerDomain example_config replay
     ([Parsed (error_doc ''2019166'' ''Domain name already exists'')], [])
     ''example.com'' 2 example_contact
   = (Inl (NamecheapError ''Domain name already exists'' (Some ''2019166'') None),
      ([], [create_request]))"
  by (simp add: registerDomain_def makeRequest_def replay_def try_block_def check_response_def
      error_doc_def get_attrs_def get_attr_def get_text_def item_def get_child_def at0_def
      after_def catch_handler_def create_request_def contact_of_args_def example_args_def
      example_contact_def)

section \<open>Updating and deleting records\<close>

text \<open>
  C2: after a successful read of the records, \<^verbatim>\<open>updateDNSRecord\<close> sends one
  \<^verbatim>\<open>namecheap.domains.dns.setHosts\<close> request for the zone, and succeeds or fails as that
  request does. The request carries a list of the length of the list read: at the
  1-based position of each record, its name, type and address, and its \<^verbatim>\<open>mxPref\<close> and
  \<^verbatim>\<open>ttl\<close> when they are truthy; nothing at any other position. Position \<open>i\<close> of the
  list holds, when every field present in the criteria equals the field of the record
  read at \<open>i\<close>, that record with each field present in the updates replaced by the
  update's value, and otherwise the record read, unchanged.
\<close>

theorem C2:
  assumes "getDNSRecords cfg tr s d = (Inr records, s1)"
  shows "\<exists>written P.
           length written = length records
         \<and> (\<forall>i < length records.
              if (\<forall>f v. criteria f = Some v \<longrightarrow> get_field (records ! i) f = v)
              then (\<forall>f. get_field (written ! i) f
                          = (case updates f of Some v \<Rightarrow> v | None \<Rightarrow> get_field (records ! i) f))
              else written ! i = records ! i)
         \<and> P = requestParams cfg ''namecheap.domains.dns.setHosts'' (host_params d written)
         \<and> updateDNSRecord cfg tr s d criteria updates
             = (case tr s1 \<lparr>req_url = apiUrl cfg, req_params = P\<rparr> of
                  (out, s2) \<Rightarrow>
                    (case try_block out of Inl e \<Rightarrow> Inl (catch_handler e) | Inr response \<Rightarrow> Inr (), s2))
         \<and> obj_get P ''Command'' = JString ''namecheap.domains.dns.setHosts''
         \<and> obj_get P ''SLD'' = sld_of d \<and> obj_get P ''TLD'' = tld_of d
         \<and> (\<forall>num. 1 \<le> num \<and> num \<le> length written \<longrightarrow>
               obj_get P (indexed ''HostName'' num) = js_of (name (written ! (num - 1)))
             \<and> obj_get P (indexed ''RecordType'' num) = js_of (type (written ! (num - 1)))
             \<and> obj_get P (indexed ''Address'' num) = js_of (address (written ! (num - 1)))
             \<and> obj_get P (indexed ''MXPref'' num)
                 = (if truthy (mxPref (written ! (num - 1))) then js_of (mxPref (written ! (num - 1)))
                    else JUndefined)
             \<and> obj_get P (indexed ''TTL'' num)
                 = (if truthy (ttl (written ! (num - 1))) then js_of (ttl (written ! (num - 1)))
                    else JUndefined))
         \<and> (\<forall>num. \<not> (1 \<le> num \<and> num \<le> length written) \<longrightarrow>
               obj_get P (indexed ''HostName'' num) = JUndefined
             \<and> obj_get P (indexed ''RecordType'' num) = JUndefined
             \<and> obj_get P (indexed ''Address'' num) = JUndefined
             \<and> obj_get P (indexed ''MXPref'' num) = JUndefined
             \<and> obj_get P (indexed ''TTL'' num) = JUndefined)"
proof -
  let ?written = "map (\<lambda>r. if matches criteria r then merge_updates r updates else r) records"
  let ?P = "requestParams cfg ''namecheap.domains.dns.setHosts'' (host_params d ?written)"
  have len: "length ?written = length records"
    by simp
  have each: "\<forall>i < length records.
          if (\<forall>f v. criteria f = Some v \<longrightarrow> get_field (records ! i) f = v)
          then (\<forall>f. get_field (?written ! i) f
                      = (case updates f of Some v \<Rightarrow> v | None \<Rightarrow> get_field (records ! i) f))
          else ?written ! i = records ! i"
    by (simp add: matches_iff [symmetric] get_field_merge_updates)
  have call: "updateDNSRecord cfg tr s d criteria updates
          = (case tr s1 \<lparr>req_url = apiUrl cfg, req_params = ?P\<rparr> of
               (out, s2) \<Rightarrow>
                 (case try_block out of Inl e \<Rightarrow> Inl (catch_handler e) | Inr response \<Rightarrow> Inr (), s2))"
    using assms by (simp add: updateDNSRecord_def setDNSRecords_sends)
  note payload = setHosts_payload [of cfg d ?written]
  show ?thesis
    apply (intro exI [of _ ?written] exI [of _ ?P] conjI)
            apply (rule len)
           apply (rule each)
          apply (rule refl)
         apply (rule call)
        apply (rule payload [THEN conjunct1])
       apply (rule payload [THEN conjunct2, THEN conjunct1])
      apply (rule payload [THEN conjunct2, THEN conjunct2, THEN conjunct1])
     apply (rule payload [THEN conjunct2, THEN conjunct2, THEN conjunct2, THEN conjunct1])
    apply (rule payload [THEN conjunct2, THEN conjunct2, THEN conjunct2, THEN conjunct2])
    done
qed

theorem C2_witness:
  "getDNSRecords example_config replay
     ([Parsed (get_hosts_doc example_hosts), Parsed set_hosts_doc], []) ''example.com''
     = (Inr [record_a, record_b], after_read)
   \<and> (\<exists>P. updateDNSRecord example_config replay
       ([Parsed (get_hosts_doc example_hosts), Parsed set_hosts_doc], []) ''example.com''
       ((\<lambda>f. None)(F_name := Some (Some ''a''), F_type := Some (Some ''A'')))
       ((\<lambda>f. None)(F_address := Some (Some ''9.9.9.9'')))
     = (Inr (), ([], snd after_read @ [\<lparr>req_url = apiUrl example_config, req_params = P\<rparr>]))
     \<and> P = requestParams example_config ''namecheap.domains.dns.setHosts''
             (host_params ''example.com'' [record_a\<lparr>address := Some ''9.9.9.9''\<rparr>, record_b])
     \<and> obj_get P ''Command'' = JString ''namecheap.domains.dns.setHosts''
     \<and> obj_get P ''SLD'' = JString ''example'' \<and> obj_get P ''TLD'' = JString ''com''
     \<and> obj_get P ''HostName1'' = JString ''a'' \<and> obj_get P ''RecordType1'' = JString ''A''
     \<and> obj_get P ''Address1'' = JString ''9.9.9.9'' \<and> obj_get P ''MXPref1'' = JString ''10''
     \<and> obj_get P ''TTL1'' = JString ''1800''
     \<and> obj_get P ''HostName2'' = JString ''b'' \<and> obj_get P ''RecordType2'' = JString ''A''
     \<and> obj_get P ''Address2'' = JString ''2.2.2.2'' \<and> obj_get P ''MXPref2'' = JString ''10''
     \<and> obj_get P ''TTL2'' = JString ''1800''
     \<and> obj_get P ''HostName3'' = JUndefined \<and> obj_get P ''RecordType3'' = JUndefined
     \<and> obj_get P ''Address3'' = JUndefined \<and> obj_get P ''MXPref3'' = JUndefined
     \<and> obj_get P ''TTL3'' = JUndefined)"
proof -
  let ?criteria = "(\<lambda>f. None)(F_name := Some (Some ''a''), F_type := Some (Some ''A''))"
  let ?updates = "(\<lambda>f. None)(F_address := Some (Some ''9.9.9.9''))"
  from C2 [OF read_example, of ?criteria ?updates]
  obtain written P where len: "length written = length [record_a, record_b]"
    and each: "\<forall>i<length [record_a, record_b]. if (\<forall>f v. ?criteria f = Some v \<longrightarrow> get_field ([record_a, record_b] ! i) f = v)
          then (\<forall>f. get_field (written ! i) f
                      = (case ?updates f of Some v \<Rightarrow> v | None \<Rightarrow> get_field ([record_a, record_b] ! i) f))
          else written ! i = [record_a, record_b] ! i"
    and P: "P = requestParams example_config ''namecheap.domains.dns.setHosts''
                  (host_params ''example.com'' written)"
    and call: "updateDNSRecord example_config replay
       ([Parsed (get_hosts_doc example_hosts), Parsed set_hosts_doc], []) ''example.com''
       ?criteria ?updates
     = (case replay after_read \<lparr>req_url = apiUrl example_config, req_params = P\<rparr> of
          (out, s2) \<Rightarrow>
            (case try_block out of Inl e \<Rightarrow> Inl (catch_handler e) | Inr response \<Rightarrow> Inr (), s2))"
    and head: "obj_get P ''Command'' = JString ''namecheap.domains.dns.setHosts''"
      "obj_get P ''SLD'' = sld_of ''example.com''" "obj_get P ''TLD'' = tld_of ''example.com''"
    and inside: "\<forall>num. 1 \<le> num \<and> num \<le> length written \<longrightarrow>
               obj_get P (indexed ''HostName'' num) = js_of (name (written ! (num - 1)))
             \<and> obj_get P (indexed ''RecordType'' num) = js_of (type (written ! (num - 1)))
             \<and> obj_get P (indexed ''Address'' num) = js_of (address (written ! (num - 1)))
             \<and> obj_get P (indexed ''MXPref'' num)
                 = (if truthy (mxPref (written ! (num - 1))) then js_of (mxPref (written ! (num - 1)))
                    else JUndefined)
             \<and> obj_get P (indexed ''TTL'' num)
                 = (if truthy (ttl (written ! (num - 1))) then js_of (ttl (written ! (num - 1)))
                    else JUndefined)"
    and outside: "\<forall>num. \<not> (1 \<le> num \<and> num \<le> length written) \<longrightarrow>
               obj_get P (indexed ''HostName'' num) = JUndefined
             \<and> obj_get P (indexed ''RecordType'' num) = JUndefined
             \<and> obj_get P (indexed ''Address'' num) = JUndefined
             \<and> obj_get P (indexed ''MXPref'' num) = JUndefined
             \<and> obj_get P (indexed ''TTL'' num) = JUndefined"
    by (elim exE conjE) (rule that)
  from len obtain x y where xy: "written = [x, y]"
    by (cases written; cases "tl written"; cases "tl (tl written)") auto
  have a_match: "\<forall>f v. ?criteria f = Some v \<longrightarrow> get_field record_a f = v"
    by (simp add: record_a_def)
  have b_differs: "\<not> (\<forall>f v. ?criteria f = Some v \<longrightarrow> get_field record_b f = v)"
    by (auto simp: record_b_def intro!: exI [of _ F_name])
  from each have "if (\<forall>f v. ?criteria f = Some v \<longrightarrow> get_field ([record_a, record_b] ! 0) f = v)
          then (\<forall>f. get_field (written ! 0) f
                      = (case ?updates f of Some v \<Rightarrow> v | None \<Rightarrow> get_field ([record_a, record_b] ! 0) f))
          else written ! 0 = [record_a, record_b] ! 0"
    by (rule allE [of _ 0]) simp
  with a_match have x_fields: "\<forall>f. get_field x f = (case ?updates f of Some v \<Rightarrow> v | None \<Rightarrow> get_field record_a f)"
    by (auto simp: xy split: if_splits)
  have x: "x = record_a\<lparr>address := Some ''9.9.9.9''\<rparr>"
    using x_fields [rule_format, of F_hostId] x_fields [rule_format, of F_name]
      x_fields [rule_format, of F_type] x_fields [rule_format, of F_address]
      x_fields [rule_format, of F_mxPref] x_fields [rule_format, of F_ttl]
    by (cases x) (simp add: record_a_def)
  from each have "if (\<forall>f v. ?criteria f = Some v \<longrightarrow> get_field ([record_a, record_b] ! 1) f = v)
          then (\<forall>f. get_field (written ! 1) f
                      = (case ?updates f of Some v \<Rightarrow> v | None \<Rightarrow> get_field ([record_a, record_b] ! 1) f))
          else written ! 1 = [record_a, record_b] ! 1"
    by (rule allE [of _ 1]) simp
  with b_differs have y: "y = record_b"
    by (auto simp: xy split: if_splits)
  have result: "updateDNSRecord example_config replay
       ([Parsed (get_hosts_doc example_hosts), Parsed set_hosts_doc], []) ''example.com''
       ?criteria ?updates
     = (Inr (), ([], snd after_read @ [\<lparr>req_url = apiUrl example_config, req_params = P\<rparr>]))"
    unfolding call by (simp add: after_read_def replay_accepts)
  have one: "obj_get P ''HostName1'' = JString ''a'' \<and> obj_get P ''RecordType1'' = JString ''A''
     \<and> obj_get P ''Address1'' = JString ''9.9.9.9'' \<and> obj_get P ''MXPref1'' = JString ''10''
     \<and> obj_get P ''TTL1'' = JString ''1800''"
    using inside [rule_format, of 1]
    by (simp add: xy x y indexed_small record_a_def record_b_def js_of_def truthy_def)
  have two: "obj_get P ''HostName2'' = JString ''b'' \<and> obj_get P ''RecordType2'' = JString ''A''
     \<and> obj_get P ''Address2'' = JString ''2.2.2.2'' \<and> obj_get P ''MXPref2'' = JString ''10''
     \<and> obj_get P ''TTL2'' = JString ''1800''"
    using inside [rule_format, of 2]
    by (simp add: xy x y indexed_small record_a_def record_b_def js_of_def truthy_def)
  have three: "obj_get P ''HostName3'' = JUndefined \<and> obj_get P ''RecordType3'' = JUndefined
     \<and> obj_get P ''Address3'' = JUndefined \<and> obj_get P ''MXPref3'' = JUndefined
     \<and> obj_get P ''TTL3'' = JUndefined"
    using outside [rule_format, of 3]
    by (simp add: xy indexed_small)
  have "P = requestParams example_config ''namecheap.domains.dns.setHosts''
             (host_params ''example.com'' [record_a\<lparr>address := Some ''9.9.9.9''\<rparr>, record_b])"
    by (simp add: P xy x y)
  with result head one two three read_example show ?thesis
    by (intro conjI exI [of _ P]) (simp_all add: sld_tld_example)
qed

text \<open>
  C3: after a successful read of the records, \<^verbatim>\<open>deleteDNSRecord\<close> sends one
  \<^verbatim>\<open>namecheap.domains.dns.setHosts\<close> request for the zone, and succeeds or fails as that
  request does. The request carries, at their 1-based positions and with nothing at any
  other position, exactly the records that differ from the criteria in at least one
  field present in the criteria, in their order; a record that agrees with the criteria
  on some fields and differs on one is written back.
\<close>

theorem C3:
  assumes "getDNSRecords cfg tr s d = (Inr records, s1)"
  shows "\<exists>written P.
           written = filter (\<lambda>r. \<exists>f v. criteria f = Some v \<and> get_field r f \<noteq> v) records
         \<and> (\<forall>r \<in> set records. \<forall>f v. criteria f = Some v \<and> get_field r f \<noteq> v \<longrightarrow> r \<in> set written)
         \<and> (\<forall>r \<in> set written. \<exists>f v. criteria f = Some v \<and> get_field r f \<noteq> v)
         \<and> P = requestParams cfg ''namecheap.domains.dns.setHosts'' (host_params d written)
         \<and> deleteDNSRecord cfg tr s d criteria
             = (case tr s1 \<lparr>req_url = apiUrl cfg, req_params = P\<rparr> of
                  (out, s2) \<Rightarrow>
                    (case try_block out of Inl e \<Rightarrow> Inl (catch_handler e) | Inr response \<Rightarrow> Inr (), s2))
         \<and> obj_get P ''Command'' = JString ''namecheap.domains.dns.setHosts''
         \<and> obj_get P ''SLD'' = sld_of d \<and> obj_get P ''TLD'' = tld_of d
         \<and> (\<forall>num. 1 \<le> num \<and> num \<le> length written \<longrightarrow>
               obj_get P (indexed ''HostName'' num) = js_of (name (written ! (num - 1)))
             \<and> obj_get P (indexed ''RecordType'' num) = js_of (type (written ! (num - 1)))
             \<and> obj_get P (indexed ''Address'' num) = js_of (address (written ! (num - 1)))
             \<and> obj_get P (indexed ''MXPref'' num)
                 = (if truthy (mxPref (written ! (num - 1))) then js_of (mxPref (written ! (num - 1)))
                    else JUndefined)
             \<and> obj_get P (indexed ''TTL'' num)
                 = (if truthy (ttl (written ! (num - 1))) then js_of (ttl (written ! (num - 1)))
                    else JUndefined))
         \<and> (\<forall>num. \<not> (1 \<le> num \<and> num \<le> length written) \<longrightarrow>
               obj_get P (indexed ''HostName'' num) = JUndefined
             \<and> obj_get P (indexed ''RecordType'' num) = JUndefined
             \<and> obj_get P (indexed ''Address'' num) = JUndefined
             \<and> obj_get P (indexed ''MXPref'' num) = JUndefined
             \<and> obj_get P (indexed ''TTL'' num) = JUndefined)"
proof -
  let ?written = "filter (\<lambda>r. \<exists>f v. criteria f = Some v \<and> get_field r f \<noteq> v) records"
  let ?P = "requestParams cfg ''namecheap.domains.dns.setHosts'' (host_params d ?written)"
  have eq: "(\<lambda>r. \<not> matches criteria r) = (\<lambda>r. \<exists>f v. criteria f = Some v \<and> get_field r f \<noteq> v)"
    by (auto simp: matches_iff)
  have kept: "\<forall>r \<in> set records. \<forall>f v. criteria f = Some v \<and> get_field r f \<noteq> v \<longrightarrow> r \<in> set ?written"
    by auto
  have differ: "\<forall>r \<in> set ?written. \<exists>f v. criteria f = Some v \<and> get_field r f \<noteq> v"
    by auto
  have call: "deleteDNSRecord cfg tr s d criteria
          = (case tr s1 \<lparr>req_url = apiUrl cfg, req_params = ?P\<rparr> of
               (out, s2) \<Rightarrow>
                 (case try_block out of Inl e \<Rightarrow> Inl (catch_handler e) | Inr response \<Rightarrow> Inr (), s2))"
    using assms by (simp add: deleteDNSRecord_def eq setDNSRecords_sends)
  note payload = setHosts_payload [of cfg d ?written]
  show ?thesis
    apply (intro exI [of _ ?written] exI [of _ ?P] conjI)
             apply (rule refl)
            apply (rule kept)
           apply (rule differ)
          apply (rule refl)
         apply (rule call)
        apply (rule payload [THEN conjunct1])
       apply (rule payload [THEN conjunct2, THEN conjunct1])
      apply (rule payload [THEN conjunct2, THEN conjunct2, THEN conjunct1])
     apply (rule payload [THEN conjunct2, THEN conjunct2, THEN conjunct2, THEN conjunct1])
    apply (rule payload [THEN conjunct2, THEN conjunct2, THEN conjunct2, THEN conjunct2])
    done
qed

theorem C3_witness:
  "getDNSRecords example_config replay
     ([Parsed (get_hosts_doc example_hosts), Parsed set_hosts_doc], []) ''example.com''
     = (Inr [record_a, record_b], after_read)
   \<and> (\<exists>P. deleteDNSRecord example_config replay
       ([Parsed (get_hosts_doc example_hosts), Parsed set_hosts_doc], []) ''example.com''
       ((\<lambda>f. None)(F_name := Some (Some ''a''), F_type := Some (Some ''A'')))
     = (Inr (), ([], snd after_read @ [\<lparr>req_url = apiUrl example_config, req_params = P\<rparr>]))
     \<and> P = requestParams example_config ''namecheap.domains.dns.setHosts''
             (host_params ''example.com'' [record_b])
     \<and> obj_get P ''Command'' = JString ''namecheap.domains.dns.setHosts''
     \<and> obj_get P ''SLD'' = JString ''example'' \<and> obj_get P ''TLD'' = JString ''com''
     \<and> obj_get P ''HostName1'' = JString ''b'' \<and> obj_get P ''RecordType1'' = JString ''A''
     \<and> obj_get P ''Address1'' = JString ''2.2.2.2'' \<and> obj_get P ''MXPref1'' = JString ''10''
     \<and> obj_get P ''TTL1'' = JString ''1800''
     \<and> obj_get P ''HostName2'' = JUndefined \<and> obj_get P ''RecordType2'' = JUndefined
     \<and> obj_get P ''Address2'' = JUndefined \<and> obj_get P ''MXPref2'' = JUndefined
     \<and> obj_get P ''TTL2'' = JUndefined)"
proof -
  let ?criteria = "(\<lambda>f. None)(F_name := Some (Some ''a''), F_type := Some (Some ''A''))"
  have a_agrees: "\<not> (\<exists>f v. ?criteria f = Some v \<and> get_field record_a f \<noteq> v)"
    by (auto simp: record_a_def split: if_splits)
  have b_differs: "\<exists>f v. ?criteria f = Some v \<and> get_field record_b f \<noteq> v"
    by (auto simp: record_b_def intro!: exI [of _ F_name])
  from C3 [OF read_example, of ?criteria]
  obtain written P
    where written: "written = filter (\<lambda>r. \<exists>f v. ?criteria f = Some v \<and> get_field r f \<noteq> v) [record_a, record_b]"
    and P: "P = requestParams example_config ''namecheap.domains.dns.setHosts''
                  (host_params ''example.com'' written)"
    and call: "deleteDNSRecord example_config replay
       ([Parsed (get_hosts_doc example_hosts), Parsed set_hosts_doc], []) ''example.com'' ?criteria
     = (case replay after_read \<lparr>req_url = apiUrl example_config, req_params = P\<rparr> of
          (out, s2) \<Rightarrow>
            (case try_block out of Inl e \<Rightarrow> Inl (catch_handler e) | Inr response \<Rightarrow> Inr (), s2))"
    and head: "obj_get P ''Command'' = JString ''namecheap.domains.dns.setHosts''"
      "obj_get P ''SLD'' = sld_of ''example.com''" "obj_get P ''TLD'' = tld_of ''example.com''"
    and inside: "\<forall>num. 1 \<le> num \<and> num \<le> length written \<longrightarrow>
               obj_get P (indexed ''HostName'' num) = js_of (name (written ! (num - 1)))
             \<and> obj_get P (indexed ''RecordType'' num) = js_of (type (written ! (num - 1)))
             \<and> obj_get P (indexed ''Address'' num) = js_of (address (written ! (num - 1)))
             \<and> obj_get P (indexed ''MXPref'' num)
                 = (if truthy (mxPref (written ! (num - 1))) then js_of (mxPref (written ! (num - 1)))
                    else JUndefined)
             \<and> obj_get P (indexed ''TTL'' num)
                 = (if truthy (ttl (written ! (num - 1))) then js_of (ttl (written ! (num - 1)))
                    else JUndefined)"
    and outside: "\<forall>num. \<not> (1 \<le> num \<and> num \<le> length written) \<longrightarrow>
               obj_get P (indexed ''HostName'' num) = JUndefined
             \<and> obj_get P (indexed ''RecordType'' num) = JUndefined
             \<and> obj_get P (indexed ''Address'' num) = JUndefined
             \<and> obj_get P (indexed ''MXPref'' num) = JUndefined
             \<and> obj_get P (indexed ''TTL'' num) = JUndefined"
    by (elim exE conjE) (rule that)
  have w: "written = [record_b]"
    unfolding written using a_agrees b_differs by simp
  have result: "deleteDNSRecord example_config replay
       ([Parsed (get_hosts_doc example_hosts), Parsed set_hosts_doc], []) ''example.com'' ?criteria
     = (Inr (), ([], snd after_read @ [\<lparr>req_url = apiUrl example_config, req_params = P\<rparr>]))"
    unfolding call by (simp add: after_read_def replay_accepts)
  have one: "obj_get P ''HostName1'' = JString ''b'' \<and> obj_get P ''RecordType1'' = JString ''A''
     \<and> obj_get P ''Address1'' = JString ''2.2.2.2'' \<and> obj_get P ''MXPref1'' = JString ''10''
     \<and> obj_get P ''TTL1'' = JString ''1800''"
    using inside [rule_format, of 1]
    by (simp add: w indexed_small record_b_def js_of_def truthy_def)
  have two: "obj_get P ''HostName2'' = JUndefined \<and> obj_get P ''RecordType2'' = JUndefined
     \<and> obj_get P ''Address2'' = JUndefined \<and> obj_get P ''MXPref2'' = JUndefined
     \<and> obj_get P ''TTL2'' = JUndefined"
    using outside [rule_format, of 2]
    by (simp add: w indexed_small)
  have "P = requestParams example_config ''namecheap.domains.dns.setHosts''
             (host_params ''example.com'' [record_b])"
    by (simp add: P w)
  with result head one two read_example show ?thesis
    by (intro conjI exI [of _ P]) (simp_all add: sld_tld_example)
qed

text \<open>
  C4: when no record read agrees with the criteria, \<^verbatim>\<open>updateDNSRecord\<close> and
  \<^verbatim>\<open>deleteDNSRecord\<close> both send the same one \<^verbatim>\<open>namecheap.domains.dns.setHosts\<close> request,
  which carries the records exactly as read, at their 1-based positions and with
  nothing at any other position; both succeed whenever the remote system accepts that
  request.
\<close>

theorem C4:
  assumes read: "getDNSRecords cfg tr s d = (Inr records, s1)"
    and nomatch: "\<forall>r \<in> set records. \<exists>f v. criteria f = Some v \<and> get_field r f \<noteq> v"
  shows "\<exists>P. P = requestParams cfg ''namecheap.domains.dns.setHosts'' (host_params d records)
         \<and> updateDNSRecord cfg tr s d criteria updates
             = (case tr s1 \<lparr>req_url = apiUrl cfg, req_params = P\<rparr> of
                  (out, s2) \<Rightarrow>
                    (case try_block out of Inl e \<Rightarrow> Inl (catch_handler e) | Inr response \<Rightarrow> Inr (), s2))
         \<and> deleteDNSRecord cfg tr s d criteria
             = (case tr s1 \<lparr>req_url = apiUrl cfg, req_params = P\<rparr> of
                  (out, s2) \<Rightarrow>
                    (case try_block out of Inl e \<Rightarrow> Inl (catch_handler e) | Inr response \<Rightarrow> Inr (), s2))
         \<and> (\<forall>out s2 response.
              tr s1 \<lparr>req_url = apiUrl cfg, req_params = P\<rparr> = (out, s2)
              \<and> try_block out = Inr response \<longrightarrow>
                updateDNSRecord cfg tr s d criteria updates = (Inr (), s2)
              \<and> deleteDNSRecord cfg tr s d criteria = (Inr (), s2))
         \<and> obj_get P ''Command'' = JString ''namecheap.domains.dns.setHosts''
         \<and> obj_get P ''SLD'' = sld_of d \<and> obj_get P ''TLD'' = tld_of d
         \<and> (\<forall>num. 1 \<le> num \<and> num \<le> length records \<longrightarrow>
               obj_get P (indexed ''HostName'' num) = js_of (name (records ! (num - 1)))
             \<and> obj_get P (indexed ''RecordType'' num) = js_of (type (records ! (num - 1)))
             \<and> obj_get P (indexed ''Address'' num) = js_of (address (records ! (num - 1)))
             \<and> obj_get P (indexed ''MXPref'' num)
                 = (if truthy (mxPref (records ! (num - 1))) then js_of (mxPref (records ! (num - 1)))
                    else JUndefined)
             \<and> obj_get P (indexed ''TTL'' num)
                 = (if truthy (ttl (records ! (num - 1))) then js_of (ttl (records ! (num - 1)))
                    else JUndefined))
         \<and> (\<forall>num. \<not> (1 \<le> num \<and> num \<le> length records) \<longrightarrow>
               obj_get P (indexed ''HostName'' num) = JUndefined
             \<and> obj_get P (indexed ''RecordType'' num) = JUndefined
             \<and> obj_get P (indexed ''Address'' num) = JUndefined
             \<and> obj_get P (indexed ''MXPref'' num) = JUndefined
             \<and> obj_get P (indexed ''TTL'' num) = JUndefined)"
proof -
  let ?P = "requestParams cfg ''namecheap.domains.dns.setHosts'' (host_params d records)"
  from nomatch have none: "\<forall>r \<in> set records. \<not> matches criteria r"
    by (simp add: matches_iff)
  then have m: "map (\<lambda>r. if matches criteria r then merge_updates r updates else r) records = records"
    by (simp add: map_idI)
  from none have f: "filter (\<lambda>r. \<not> matches criteria r) records = records"
    by simp
  have u: "updateDNSRecord cfg tr s d criteria updates
          = (case tr s1 \<lparr>req_url = apiUrl cfg, req_params = ?P\<rparr> of
               (out, s2) \<Rightarrow>
                 (case try_block out of Inl e \<Rightarrow> Inl (catch_handler e) | Inr response \<Rightarrow> Inr (), s2))"
    using read by (simp add: updateDNSRecord_def m setDNSRecords_sends)
  have dl: "deleteDNSRecord cfg tr s d criteria
          = (case tr s1 \<lparr>req_url = apiUrl cfg, req_params = ?P\<rparr> of
               (out, s2) \<Rightarrow>
                 (case try_block out of Inl e \<Rightarrow> Inl (catch_handler e) | Inr response \<Rightarrow> Inr (), s2))"
    using read by (simp add: deleteDNSRecord_def f setDNSRecords_sends)
  have accepted: "\<forall>out s2 response.
              tr s1 \<lparr>req_url = apiUrl cfg, req_params = ?P\<rparr> = (out, s2)
              \<and> try_block out = Inr response \<longrightarrow>
                updateDNSRecord cfg tr s d criteria updates = (Inr (), s2)
              \<and> deleteDNSRecord cfg tr s d criteria = (Inr (), s2)"
    unfolding u dl by simp
  note payload = setHosts_payload [of cfg d records]
  show ?thesis
    apply (intro exI [of _ ?P] conjI)
            apply (rule refl)
           apply (rule u)
          apply (rule dl)
         apply (rule accepted)
        apply (rule payload [THEN conjunct1])
       apply (rule payload [THEN conjunct2, THEN conjunct1])
      apply (rule payload [THEN conjunct2, THEN conjunct2, THEN conjunct1])
     apply (rule payload [THEN conjunct2, THEN conjunct2, THEN conjunct2, THEN conjunct1])
    apply (rule payload [THEN conjunct2, THEN conjunct2, THEN conjunct2, THEN conjunct2])
    done
qed

theorem C4_witness:
  "getDNSRecords example_config replay
     ([Parsed (get_hosts_doc example_hosts), Parsed set_hosts_doc], []) ''example.com''
     = (Inr [record_a, record_b], after_read)
   \<and> (\<exists>P. updateDNSRecord example_config replay
       ([Parsed (get_hosts_doc example_hosts), Parsed set_hosts_doc], []) ''example.com''
       ((\<lambda>f. None)(F_name := Some (Some ''www''))) ((\<lambda>f. None)(F_address := Some (Some ''9.9.9.9'')))
     = (Inr (), ([], snd after_read @ [\<lparr>req_url = apiUrl example_config, req_params = P\<rparr>]))
     \<and> deleteDNSRecord example_config replay
       ([Parsed (get_hosts_doc example_hosts), Parsed set_hosts_doc], []) ''example.com''
       ((\<lambda>f. None)(F_name := Some (Some ''www'')))
     = (Inr (), ([], snd after_read @ [\<lparr>req_url = apiUrl example_config, req_params = P\<rparr>]))
     \<and> P = requestParams example_config ''namecheap.domains.dns.setHosts''
             (host_params ''example.com'' [record_a, record_b])
     \<and> obj_get P ''Command'' = JString ''namecheap.domains.dns.setHosts''
     \<and> obj_get P ''SLD'' = JString ''example'' \<and> obj_get P ''TLD'' = JString ''com''
     \<and> obj_get P ''HostName1'' = JString ''a'' \<and> obj_get P ''RecordType1'' = JString ''A''
     \<and> obj_get P ''Address1'' = JString ''1.1.1.1'' \<and> obj_get P ''MXPref1'' = JString ''10''
     \<and> obj_get P ''TTL1'' = JString ''1800''
     \<and> obj_get P ''HostName2'' = JString ''b'' \<and> obj_get P ''RecordType2'' = JString ''A''
     \<and> obj_get P ''Address2'' = JString ''2.2.2.2'' \<and> obj_get P ''MXPref2'' = JString ''10''
     \<and> obj_get P ''TTL2'' = JString ''1800''
     \<and> obj_get P ''HostName3'' = JUndefined \<and> obj_get P ''RecordType3'' = JUndefined
     \<and> obj_get P ''Address3'' = JUndefined \<and> obj_get P ''MXPref3'' = JUndefined
     \<and> obj_get P ''TTL3'' = JUndefined)"
proof -
  let ?criteria = "(\<lambda>f. None)(F_name := Some (Some ''www''))"
  let ?updates = "(\<lambda>f. None)(F_address := Some (Some ''9.9.9.9''))"
  have nomatch: "\<forall>r \<in> set [record_a, record_b]. \<exists>f v. ?criteria f = Some v \<and> get_field r f \<noteq> v"
    by (auto simp: record_a_def record_b_def intro!: exI [of _ F_name])
  from C4 [OF read_example nomatch, of ?updates]
  obtain P
    where P: "P = requestParams example_config ''namecheap.domains.dns.setHosts''
                  (host_params ''example.com'' [record_a, record_b])"
    and u: "updateDNSRecord example_config replay
       ([Parsed (get_hosts_doc example_hosts), Parsed set_hosts_doc], []) ''example.com'' ?criteria ?updates
     = (case replay after_read \<lparr>req_url = apiUrl example_config, req_params = P\<rparr> of
          (out, s2) \<Rightarrow>
            (case try_block out of Inl e \<Rightarrow> Inl (catch_handler e) | Inr response \<Rightarrow> Inr (), s2))"
    and dl: "deleteDNSRecord example_config replay
       ([Parsed (get_hosts_doc example_hosts), Parsed set_hosts_doc], []) ''example.com'' ?criteria
     = (case replay after_read \<lparr>req_url = apiUrl example_config, req_params = P\<rparr> of
          (out, s2) \<Rightarrow>
            (case try_block out of Inl e \<Rightarrow> Inl (catch_handler e) | Inr response \<Rightarrow> Inr (), s2))"
    and accepted: "\<forall>out s2 response.
              replay after_read \<lparr>req_url = apiUrl example_config, req_params = P\<rparr> = (out, s2)
              \<and> try_block out = Inr response \<longrightarrow>
                updateDNSRecord example_config replay
                  ([Parsed (get_hosts_doc example_hosts), Parsed set_hosts_doc], []) ''example.com'' ?criteria ?updates = (Inr (), s2)
              \<and> deleteDNSRecord example_config replay
                  ([Parsed (get_hosts_doc example_hosts), Parsed set_hosts_doc], []) ''example.com'' ?criteria = (Inr (), s2)"
    and head: "obj_get P ''Command'' = JString ''namecheap.domains.dns.setHosts''"
      "obj_get P ''SLD'' = sld_of ''example.com''" "obj_get P ''TLD'' = tld_of ''example.com''"
    and inside: "\<forall>num. 1 \<le> num \<and> num \<le> length [record_a, record_b] \<longrightarrow>
               obj_get P (indexed ''HostName'' num) = js_of (name ([record_a, record_b] ! (num - 1)))
             \<and> obj_get P (indexed ''RecordType'' num) = js_of (type ([record_a, record_b] ! (num - 1)))
             \<and> obj_get P (indexed ''Address'' num) = js_of (address ([record_a, record_b] ! (num - 1)))
             \<and> obj_get P (indexed ''MXPref'' num)
                 = (if truthy (mxPref ([record_a, record_b] ! (num - 1))) then js_of (mxPref ([record_a, record_b] ! (num - 1)))
                    else JUndefined)
             \<and> obj_get P (indexed ''TTL'' num)
                 = (if truthy (ttl ([record_a, record_b] ! (num - 1))) then js_of (ttl ([record_a, record_b] ! (num - 1)))
                    else JUndefined)"
    and outside: "\<forall>num. \<not> (1 \<le> num \<and> num \<le> length [record_a, record_b]) \<longrightarrow>
               obj_get P (indexed ''HostName'' num) = JUndefined
             \<and> obj_get P (indexed ''RecordType'' num) = JUndefined
             \<and> obj_get P (indexed ''Address'' num) = JUndefined
             \<and> obj_get P (indexed ''MXPref'' num) = JUndefined
             \<and> obj_get P (indexed ''TTL'' num) = JUndefined"
    by (elim exE conjE) (rule that)
  have reply: "replay after_read \<lparr>req_url = apiUrl example_config, req_params = P\<rparr>
                 = (Parsed set_hosts_doc,
                    ([], snd after_read @ [\<lparr>req_url = apiUrl example_config, req_params = P\<rparr>]))
               \<and> try_block (Parsed set_hosts_doc)
                      = Inr (Some (XElem (Some [(''Status'', ''OK'')]) None
                          [(''CommandResponse'',
                            [XElem (Some [(''Type'', ''namecheap.domains.dns.setHosts'')]) None
                               [(''DomainDNSSetHostsResult'',
                                 [XElem (Some [(''IsSuccess'', ''true'')]) None []])]])]))"
    by (simp add: replay_def after_read_def try_block_def check_response_def set_hosts_doc_def
        ok_doc_def get_attrs_def get_attr_def)
  from accepted reply have result: "updateDNSRecord example_config replay
       ([Parsed (get_hosts_doc example_hosts), Parsed set_hosts_doc], []) ''example.com'' ?criteria ?updates
       = (Inr (), ([], snd after_read @ [\<lparr>req_url = apiUrl example_config, req_params = P\<rparr>]))
     \<and> deleteDNSRecord example_config replay
       ([Parsed (get_hosts_doc example_hosts), Parsed set_hosts_doc], []) ''example.com'' ?criteria
       = (Inr (), ([], snd after_read @ [\<lparr>req_url = apiUrl example_config, req_params = P\<rparr>]))"
    by blast
  have one: "obj_get P ''HostName1'' = JString ''a'' \<and> obj_get P ''RecordType1'' = JString ''A''
     \<and> obj_get P ''Address1'' = JString ''1.1.1.1'' \<and> obj_get P ''MXPref1'' = JString ''10''
     \<and> obj_get P ''TTL1'' = JString ''1800''"
    using inside [rule_format, of 1]
    by (simp add: indexed_small record_a_def record_b_def js_of_def truthy_def)
  have two: "obj_get P ''HostName2'' = JString ''b'' \<and> obj_get P ''RecordType2'' = JString ''A''
     \<and> obj_get P ''Address2'' = JString ''2.2.2.2'' \<and> obj_get P ''MXPref2'' = JString ''10''
     \<and> obj_get P ''TTL2'' = JString ''1800''"
    using inside [rule_format, of 2]
    by (simp add: indexed_small record_a_def record_b_def js_of_def truthy_def)
  have three: "obj_get P ''HostName3'' = JUndefined \<and> obj_get P ''RecordType3'' = JUndefined
     \<and> obj_get P ''Address3'' = JUndefined \<and> obj_get P ''MXPref3'' = JUndefined
     \<and> obj_get P ''TTL3'' = JUndefined"
    using outside [rule_format, of 3]
    by (simp add: indexed_small)
  from result P head one two three read_example show ?thesis
    by (intro conjI exI [of _ P]) (simp_all add: sld_tld_example)
qed

section \<open>Adding a record, and writing back what was read\<close>

text \<open>
  C1: after a successful read of the records, \<^verbatim>\<open>addDNSRecord\<close> sends one
  \<^verbatim>\<open>namecheap.domains.dns.setHosts\<close> request with the records read followed by the new
  one, and succeeds or fails as that request does. Against the zone store, whatever the
  registrar sets by itself, and with every record named (\<^verbatim>\<open>name\<close> is a required field
  of \<^verbatim>\<open>DNSRecord\<close>), the add succeeds and a subsequent \<^verbatim>\<open>getDNSRecords\<close> yields the
  records read before followed by the new one: the same (name, type, address), in the
  same order, so as a set the identities read before with that of the new record
  added; a truthy \<^verbatim>\<open>mxPref\<close> or \<^verbatim>\<open>ttl\<close> is unchanged too.
\<close>

theorem C1:
  assumes read: "getDNSRecords cfg (zone_remote own) st d = (Inr existing, st1)"
    and names: "\<forall>x \<in> set (existing @ [r]). name x \<noteq> None"
  shows "(\<forall>records s1. getDNSRecords cfg tr s d = (Inr records, s1) \<longrightarrow>
            addDNSRecord cfg tr s d r
              = (case tr s1 \<lparr>req_url = apiUrl cfg,
                             req_params = requestParams cfg ''namecheap.domains.dns.setHosts''
                                            (host_params d (records @ [r]))\<rparr> of
                   (out, s2) \<Rightarrow>
                     (case try_block out of Inl e \<Rightarrow> Inl (catch_handler e) | Inr response \<Rightarrow> Inr (), s2)))
       \<and> (\<exists>st2 later.
              addDNSRecord cfg (zone_remote own) st d r = (Inr (), st2)
            \<and> getDNSRecords cfg (zone_remote own) st2 d = (Inr later, st2)
            \<and> map (\<lambda>x. (name x, type x, address x)) later
                = map (\<lambda>x. (name x, type x, address x)) (existing @ [r])
            \<and> set (map (\<lambda>x. (name x, type x, address x)) later)
                = set (map (\<lambda>x. (name x, type x, address x)) existing) \<union> {(name r, type r, address r)}
            \<and> (\<forall>i < length existing.
                  (truthy (mxPref (existing ! i)) \<longrightarrow> mxPref (later ! i) = mxPref (existing ! i))
                \<and> (truthy (ttl (existing ! i)) \<longrightarrow> ttl (later ! i) = ttl (existing ! i)))
            \<and> (truthy (mxPref r) \<longrightarrow> mxPref (later ! length existing) = mxPref r)
            \<and> (truthy (ttl r) \<longrightarrow> ttl (later ! length existing) = ttl r))"
proof (intro conjI)
  show "\<forall>records s1. getDNSRecords cfg tr s d = (Inr records, s1) \<longrightarrow>
            addDNSRecord cfg tr s d r
              = (case tr s1 \<lparr>req_url = apiUrl cfg,
                             req_params = requestParams cfg ''namecheap.domains.dns.setHosts''
                                            (host_params d (records @ [r]))\<rparr> of
                   (out, s2) \<Rightarrow>
                     (case try_block out of Inl e \<Rightarrow> Inl (catch_handler e) | Inr response \<Rightarrow> Inr (), s2))"
    by (simp add: addDNSRecord_def setDNSRecords_sends)
  have add: "addDNSRecord cfg (zone_remote own) st d r
               = setDNSRecords cfg (zone_remote own) st1 d (existing @ [r])"
    using read by (simp add: addDNSRecord_def)
  from zone_write_read [OF names, of cfg own st1 d]
  obtain st2 later where w: "setDNSRecords cfg (zone_remote own) st1 d (existing @ [r]) = (Inr (), st2)"
    and rd: "getDNSRecords cfg (zone_remote own) st2 d = (Inr later, st2)"
    and len: "length later = length (existing @ [r])"
    and each: "\<forall>i < length (existing @ [r]).
              name (later ! i) = name ((existing @ [r]) ! i) \<and> type (later ! i) = type ((existing @ [r]) ! i)
            \<and> address (later ! i) = address ((existing @ [r]) ! i)
            \<and> (truthy (mxPref ((existing @ [r]) ! i)) \<longrightarrow> mxPref (later ! i) = mxPref ((existing @ [r]) ! i))
            \<and> (truthy (ttl ((existing @ [r]) ! i)) \<longrightarrow> ttl (later ! i) = ttl ((existing @ [r]) ! i))"
    by (elim exE conjE) (rule that)
  have same: "map (\<lambda>x. (name x, type x, address x)) later
                = map (\<lambda>x. (name x, type x, address x)) (existing @ [r])"
    using len each by (intro same_identities) simp_all
  have sets: "set (map (\<lambda>x. (name x, type x, address x)) later)
                = set (map (\<lambda>x. (name x, type x, address x)) existing) \<union> {(name r, type r, address r)}"
    unfolding same by simp
  have old: "\<forall>i < length existing.
                  (truthy (mxPref (existing ! i)) \<longrightarrow> mxPref (later ! i) = mxPref (existing ! i))
                \<and> (truthy (ttl (existing ! i)) \<longrightarrow> ttl (later ! i) = ttl (existing ! i))"
  proof (intro allI impI)
    fix i assume i: "i < length existing"
    then have "i < length (existing @ [r])" by simp
    with each have "(truthy (mxPref ((existing @ [r]) ! i)) \<longrightarrow> mxPref (later ! i) = mxPref ((existing @ [r]) ! i))
            \<and> (truthy (ttl ((existing @ [r]) ! i)) \<longrightarrow> ttl (later ! i) = ttl ((existing @ [r]) ! i))"
      by blast
    with i show "(truthy (mxPref (existing ! i)) \<longrightarrow> mxPref (later ! i) = mxPref (existing ! i))
                \<and> (truthy (ttl (existing ! i)) \<longrightarrow> ttl (later ! i) = ttl (existing ! i))"
      by (simp add: nth_append)
  qed
  have "length existing < length (existing @ [r])" by simp
  with each have "(truthy (mxPref ((existing @ [r]) ! length existing))
                     \<longrightarrow> mxPref (later ! length existing) = mxPref ((existing @ [r]) ! length existing))
            \<and> (truthy (ttl ((existing @ [r]) ! length existing))
                     \<longrightarrow> ttl (later ! length existing) = ttl ((existing @ [r]) ! length existing))"
    by blast
  then have new: "(truthy (mxPref r) \<longrightarrow> mxPref (later ! length existing) = mxPref r)"
    "(truthy (ttl r) \<longrightarrow> ttl (later ! length existing) = ttl r)"
    by simp_all
  from add w have added: "addDNSRecord cfg (zone_remote own) st d r = (Inr (), st2)"
    by simp
  show "\<exists>st2 later.
              addDNSRecord cfg (zone_remote own) st d r = (Inr (), st2)
            \<and> getDNSRecords cfg (zone_remote own) st2 d = (Inr later, st2)
            \<and> map (\<lambda>x. (name x, type x, address x)) later
                = map (\<lambda>x. (name x, type x, address x)) (existing @ [r])
            \<and> set (map (\<lambda>x. (name x, type x, address x)) later)
                = set (map (\<lambda>x. (name x, type x, address x)) existing) \<union> {(name r, type r, address r)}
            \<and> (\<forall>i < length existing.
                  (truthy (mxPref (existing ! i)) \<longrightarrow> mxPref (later ! i) = mxPref (existing ! i))
                \<and> (truthy (ttl (existing ! i)) \<longrightarrow> ttl (later ! i) = ttl (existing ! i)))
            \<and> (truthy (mxPref r) \<longrightarrow> mxPref (later ! length existing) = mxPref r)
            \<and> (truthy (ttl r) \<longrightarrow> ttl (later ! length existing) = ttl r)"
    by (intro exI [of _ st2] exI [of _ later] conjI added rd same sets old new)
qed

theorem C1_witness:
  "getDNSRecords example_config (zone_remote example_own) example_zones ''example.com''
     = (Inr [record_a, record_b], example_zones)
   \<and> name record_a \<noteq> None \<and> name record_b \<noteq> None \<and> name record_www \<noteq> None
   \<and> (\<exists>st2 later.
          addDNSRecord example_config (zone_remote example_own) example_zones ''example.com''
            record_www = (Inr (), st2)
        \<and> getDNSRecords example_config (zone_remote example_own) st2 ''example.com''
            = (Inr later, st2)
        \<and> later = [record_a\<lparr>hostId := Some ''1''\<rparr>, record_b\<lparr>hostId := Some ''2''\<rparr>,
                    record_www\<lparr>hostId := Some ''3'', mxPref := Some ''10'', ttl := Some ''1800''\<rparr>]
        \<and> map (\<lambda>x. (name x, type x, address x)) later
            = [(Some ''a'', Some ''A'', Some ''1.1.1.1''), (Some ''b'', Some ''A'', Some ''2.2.2.2''),
               (Some ''www'', Some ''A'', Some ''3.3.3.3'')]
        \<and> mxPref (later ! 0) = Some ''10'' \<and> ttl (later ! 0) = Some ''1800''
        \<and> mxPref (later ! 1) = Some ''10'' \<and> ttl (later ! 1) = Some ''1800'')
   \<and> addDNSRecord example_config replay
       ([Parsed (get_hosts_doc example_hosts), Parsed set_hosts_doc], []) ''example.com'' record_www
     = (Inr (), ([], snd after_read @
          [\<lparr>req_url = apiUrl example_config,
            req_params = requestParams example_config ''namecheap.domains.dns.setHosts''
                           (host_params ''example.com'' [record_a, record_b, record_www])\<rparr>]))"
proof -
  have names: "\<forall>x \<in> set ([record_a, record_b] @ [record_www]). name x \<noteq> None"
    by (simp add: record_a_def record_b_def record_www_def)
  from C1 [where tr = "zone_remote example_own" and s = example_zones and own = example_own,
      OF read_example_zone names]
  obtain st2 later
    where added: "addDNSRecord example_config (zone_remote example_own) example_zones
                    ''example.com'' record_www = (Inr (), st2)"
    and rd: "getDNSRecords example_config (zone_remote example_own) st2 ''example.com''
               = (Inr later, st2)"
    and same: "map (\<lambda>x. (name x, type x, address x)) later
                 = map (\<lambda>x. (name x, type x, address x)) ([record_a, record_b] @ [record_www])"
    and kept: "\<forall>i < length [record_a, record_b].
                  (truthy (mxPref ([record_a, record_b] ! i))
                     \<longrightarrow> mxPref (later ! i) = mxPref ([record_a, record_b] ! i))
                \<and> (truthy (ttl ([record_a, record_b] ! i))
                     \<longrightarrow> ttl (later ! i) = ttl ([record_a, record_b] ! i))"
    by (elim exE conjE) (rule that)
  have "addDNSRecord example_config (zone_remote example_own) example_zones ''example.com''
          record_www
        = setDNSRecords example_config (zone_remote example_own) example_zones ''example.com''
            ([record_a, record_b] @ [record_www])"
    by (simp add: addDNSRecord_def read_example_zone)
  with added zone_write_then_read [OF names refl, of example_config example_own example_zones
      "''example.com''"] rd
  have later: "later = [record_a\<lparr>hostId := Some ''1''\<rparr>, record_b\<lparr>hostId := Some ''2''\<rparr>,
                    record_www\<lparr>hostId := Some ''3'', mxPref := Some ''10'', ttl := Some ''1800''\<rparr>]"
    by (simp add: example_written)
  have ids: "map (\<lambda>x. (name x, type x, address x)) later
            = [(Some ''a'', Some ''A'', Some ''1.1.1.1''), (Some ''b'', Some ''A'', Some ''2.2.2.2''),
               (Some ''www'', Some ''A'', Some ''3.3.3.3'')]"
    unfolding same by (simp add: record_a_def record_b_def record_www_def)
  have opt: "mxPref (later ! 0) = Some ''10'' \<and> ttl (later ! 0) = Some ''1800''
        \<and> mxPref (later ! 1) = Some ''10'' \<and> ttl (later ! 1) = Some ''1800''"
    using kept [rule_format, of 0] kept [rule_format, of 1]
    by (simp add: record_a_def record_b_def truthy_def)
  from added rd later ids opt
  have "\<exists>st2 later.
          addDNSRecord example_config (zone_remote example_own) example_zones ''example.com''
            record_www = (Inr (), st2)
        \<and> getDNSRecords example_config (zone_remote example_own) st2 ''example.com''
            = (Inr later, st2)
        \<and> later = [record_a\<lparr>hostId := Some ''1''\<rparr>, record_b\<lparr>hostId := Some ''2''\<rparr>,
                    record_www\<lparr>hostId := Some ''3'', mxPref := Some ''10'', ttl := Some ''1800''\<rparr>]
        \<and> map (\<lambda>x. (name x, type x, address x)) later
            = [(Some ''a'', Some ''A'', Some ''1.1.1.1''), (Some ''b'', Some ''A'', Some ''2.2.2.2''),
               (Some ''www'', Some ''A'', Some ''3.3.3.3'')]
        \<and> mxPref (later ! 0) = Some ''10'' \<and> ttl (later ! 0) = Some ''1800''
        \<and> mxPref (later ! 1) = Some ''10'' \<and> ttl (later ! 1) = Some ''1800''"
    by (intro exI [of _ st2] exI [of _ later]) (simp only: simp_thms)
  moreover from C1 [where tr = replay
      and s = "([Parsed (get_hosts_doc example_hosts), Parsed set_hosts_doc], [])"
      and own = example_own, OF read_example_zone names]
  have "addDNSRecord example_config replay
       ([Parsed (get_hosts_doc example_hosts), Parsed set_hosts_doc], []) ''example.com'' record_www
     = (Inr (), ([], snd after_read @
          [\<lparr>req_url = apiUrl example_config,
            req_params = requestParams example_config ''namecheap.domains.dns.setHosts''
                           (host_params ''example.com'' [record_a, record_b, record_www])\<rparr>]))"
    using read_example by (simp add: after_read_def replay_accepts)
  ultimately show ?thesis
    using read_example_zone names by simp
qed

text \<open>
  C5: \<^verbatim>\<open>setDNSRecords(d, await getDNSRecords(d))\<close> sends, after a successful read, one
  \<^verbatim>\<open>namecheap.domains.dns.setHosts\<close> request with the records read. Against the zone
  store, whatever the registrar sets by itself, and with every record named, the
  composition succeeds and leaves the record set of the zone unchanged: a subsequent
  \<^verbatim>\<open>getDNSRecords\<close> yields the same set of (name, type, address), in the same order as
  well, and a truthy \<^verbatim>\<open>mxPref\<close> or \<^verbatim>\<open>ttl\<close> is unchanged too.
\<close>

theorem C5:
  assumes read: "getDNSRecords cfg (zone_remote own) st d = (Inr existing, st1)"
    and names: "\<forall>x \<in> set existing. name x \<noteq> None"
  shows "(\<forall>records s1. getDNSRecords cfg tr s d = (Inr records, s1) \<longrightarrow>
            round_trip cfg tr s d
              = (case tr s1 \<lparr>req_url = apiUrl cfg,
                             req_params = requestParams cfg ''namecheap.domains.dns.setHosts''
                                            (host_params d records)\<rparr> of
                   (out, s2) \<Rightarrow>
                     (case try_block out of Inl e \<Rightarrow> Inl (catch_handler e) | Inr response \<Rightarrow> Inr (), s2)))
       \<and> (\<exists>st2 later.
              round_trip cfg (zone_remote own) st d = (Inr (), st2)
            \<and> getDNSRecords cfg (zone_remote own) st2 d = (Inr later, st2)
            \<and> set (map (\<lambda>x. (name x, type x, address x)) later)
                = set (map (\<lambda>x. (name x, type x, address x)) existing)
            \<and> map (\<lambda>x. (name x, type x, address x)) later
                = map (\<lambda>x. (name x, type x, address x)) existing
            \<and> (\<forall>i < length existing.
                  (truthy (mxPref (existing ! i)) \<longrightarrow> mxPref (later ! i) = mxPref (existing ! i))
                \<and> (truthy (ttl (existing ! i)) \<longrightarrow> ttl (later ! i) = ttl (existing ! i))))"
proof (intro conjI)
  show "\<forall>records s1. getDNSRecords cfg tr s d = (Inr records, s1) \<longrightarrow>
            round_trip cfg tr s d
              = (case tr s1 \<lparr>req_url = apiUrl cfg,
                             req_params = requestParams cfg ''namecheap.domains.dns.setHosts''
                                            (host_params d records)\<rparr> of
                   (out, s2) \<Rightarrow>
                     (case try_block out of Inl e \<Rightarrow> Inl (catch_handler e) | Inr response \<Rightarrow> Inr (), s2))"
    by (simp add: round_trip_def setDNSRecords_sends)
  have again: "round_trip cfg (zone_remote own) st d = setDNSRecords cfg (zone_remote own) st1 d existing"
    using read by (simp add: round_trip_def)
  from zone_write_read [OF names, of cfg own st1 d]
  obtain st2 later where w: "setDNSRecords cfg (zone_remote own) st1 d existing = (Inr (), st2)"
    and rd: "getDNSRecords cfg (zone_remote own) st2 d = (Inr later, st2)"
    and len: "length later = length existing"
    and each: "\<forall>i < length existing.
              name (later ! i) = name (existing ! i) \<and> type (later ! i) = type (existing ! i)
            \<and> address (later ! i) = address (existing ! i)
            \<and> (truthy (mxPref (existing ! i)) \<longrightarrow> mxPref (later ! i) = mxPref (existing ! i))
            \<and> (truthy (ttl (existing ! i)) \<longrightarrow> ttl (later ! i) = ttl (existing ! i))"
    by (elim exE conjE) (rule that)
  have same: "map (\<lambda>x. (name x, type x, address x)) later
                = map (\<lambda>x. (name x, type x, address x)) existing"
    using len each by (intro same_identities) simp_all
  have sets: "set (map (\<lambda>x. (name x, type x, address x)) later)
                = set (map (\<lambda>x. (name x, type x, address x)) existing)"
    unfolding same by simp
  from each have kept: "\<forall>i < length existing.
                  (truthy (mxPref (existing ! i)) \<longrightarrow> mxPref (later ! i) = mxPref (existing ! i))
                \<and> (truthy (ttl (existing ! i)) \<longrightarrow> ttl (later ! i) = ttl (existing ! i))"
    by blast
  from again w have wrote: "round_trip cfg (zone_remote own) st d = (Inr (), st2)"
    by simp
  show "\<exists>st2 later.
              round_trip cfg (zone_remote own) st d = (Inr (), st2)
            \<and> getDNSRecords cfg (zone_remote own) st2 d = (Inr later, st2)
            \<and> set (map (\<lambda>x. (name x, type x, address x)) later)
                = set (map (\<lambda>x. (name x, type x, address x)) existing)
            \<and> map (\<lambda>x. (name x, type x, address x)) later
                = map (\<lambda>x. (name x, type x, address x)) existing
            \<and> (\<forall>i < length existing.
                  (truthy (mxPref (existing ! i)) \<longrightarrow> mxPref (later ! i) = mxPref (existing ! i))
                \<and> (truthy (ttl (existing ! i)) \<longrightarrow> ttl (later ! i) = ttl (existing ! i)))"
    by (intro exI [of _ st2] exI [of _ later] conjI wrote rd same sets kept)
qed

theorem C5_witness:
  "getDNSRecords example_config (zone_remote example_own) example_zones ''example.com''
     = (Inr [record_a, record_b], example_zones)
   \<and> name record_a \<noteq> None \<and> name record_b \<noteq> None
   \<and> (\<exists>st2 later.
          round_trip example_config (zone_remote example_own) example_zones ''example.com''
            = (Inr (), st2)
        \<and> getDNSRecords example_config (zone_remote example_own) st2 ''example.com''
            = (Inr later, st2)
        \<and> later = [record_a\<lparr>hostId := Some ''1''\<rparr>, record_b\<lparr>hostId := Some ''2''\<rparr>]
        \<and> set (map (\<lambda>x. (name x, type x, address x)) later)
            = {(Some ''a'', Some ''A'', Some ''1.1.1.1''), (Some ''b'', Some ''A'', Some ''2.2.2.2'')}
        \<and> mxPref (later ! 0) = Some ''10'' \<and> ttl (later ! 0) = Some ''1800''
        \<and> mxPref (later ! 1) = Some ''10'' \<and> ttl (later ! 1) = Some ''1800'')
   \<and> round_trip example_config replay
       ([Parsed (get_hosts_doc example_hosts), Parsed set_hosts_doc], []) ''example.com''
     = (Inr (), ([], snd after_read @
          [\<lparr>req_url = apiUrl example_config,
            req_params = requestParams example_config ''namecheap.domains.dns.setHosts''
                           (host_params ''example.com'' [record_a, record_b])\<rparr>]))"
proof -
  have names: "\<forall>x \<in> set [record_a, record_b]. name x \<noteq> None"
    by (simp add: record_a_def record_b_def)
  from C5 [where tr = "zone_remote example_own" and s = example_zones and own = example_own,
      OF read_example_zone names]
  obtain st2 later
    where wrote: "round_trip example_config (zone_remote example_own) example_zones
                    ''example.com'' = (Inr (), st2)"
    and rd: "getDNSRecords example_config (zone_remote example_own) st2 ''example.com''
               = (Inr later, st2)"
    and sets: "set (map (\<lambda>x. (name x, type x, address x)) later)
                 = set (map (\<lambda>x. (name x, type x, address x)) [record_a, record_b])"
    and kept: "\<forall>i < length [record_a, record_b].
                  (truthy (mxPref ([record_a, record_b] ! i))
                     \<longrightarrow> mxPref (later ! i) = mxPref ([record_a, record_b] ! i))
                \<and> (truthy (ttl ([record_a, record_b] ! i))
                     \<longrightarrow> ttl (later ! i) = ttl ([record_a, record_b] ! i))"
    by (elim exE conjE) (rule that)
  have "round_trip example_config (zone_remote example_own) example_zones ''example.com''
        = setDNSRecords example_config (zone_remote example_own) example_zones ''example.com''
            [record_a, record_b]"
    by (simp add: round_trip_def read_example_zone)
  with wrote zone_write_then_read [OF names refl, of example_config example_own example_zones
      "''example.com''"] rd
  have later: "later = [record_a\<lparr>hostId := Some ''1''\<rparr>, record_b\<lparr>hostId := Some ''2''\<rparr>]"
    by (simp add: example_written)
  have ids: "set (map (\<lambda>x. (name x, type x, address x)) later)
            = {(Some ''a'', Some ''A'', Some ''1.1.1.1''), (Some ''b'', Some ''A'', Some ''2.2.2.2'')}"
    unfolding sets by (simp add: record_a_def record_b_def)
  have opt: "mxPref (later ! 0) = Some ''10'' \<and> ttl (later ! 0) = Some ''1800''
        \<and> mxPref (later ! 1) = Some ''10'' \<and> ttl (later ! 1) = Some ''1800''"
    using kept [rule_format, of 0] kept [rule_format, of 1]
    by (simp add: record_a_def record_b_def truthy_def)
  from wrote rd later ids opt
  have "\<exists>st2 later.
          round_trip example_config (zone_remote example_own) example_zones ''example.com''
            = (Inr (), st2)
        \<and> getDNSRecords example_config (zone_remote example_own) st2 ''example.com''
            = (Inr later, st2)
        \<and> later = [record_a\<lparr>hostId := Some ''1''\<rparr>, record_b\<lparr>hostId := Some ''2''\<rparr>]
        \<and> set (map (\<lambda>x. (name x, type x, address x)) later)
            = {(Some ''a'', Some ''A'', Some ''1.1.1.1''), (Some ''b'', Some ''A'', Some ''2.2.2.2'')}
        \<and> mxPref (later ! 0) = Some ''10'' \<and> ttl (later ! 0) = Some ''1800''
        \<and> mxPref (later ! 1) = Some ''10'' \<and> ttl (later ! 1) = Some ''1800''"
    by (intro exI [of _ st2] exI [of _ later]) (simp only: simp_thms)
  moreover from C5 [where tr = replay
      and s = "([Parsed (get_hosts_doc example_hosts), Parsed set_hosts_doc], [])"
      and own = example_own, OF read_example_zone names]
  have "round_trip example_config replay
       ([Parsed (get_hosts_doc example_hosts), Parsed set_hosts_doc], []) ''example.com''
     = (Inr (), ([], snd after_read @
          [\<lparr>req_url = apiUrl example_config,
            req_params = requestParams example_config ''namecheap.domains.dns.setHosts''
                           (host_params ''example.com'' [record_a, record_b])\<rparr>]))"
    using read_example by (simp add: after_read_def replay_accepts)
  ultimately show ?thesis
    using read_example_zone names by simp
qed

end
